theory Spec2Isabelle
  imports Main "HOL-Library.Sublist"
begin

section \<open>Strings as the build script uses them\<close>

text \<open>
  The build script \<^verbatim>\<open>scripts/make.js\<close> works on JavaScript strings. They are
  modelled as \<^typ>\<open>string\<close>; every path and pattern of the script is ASCII.
\<close>

text \<open>\<^verbatim>\<open>endsWith(suffix, str)\<close> of rambdax: \<^verbatim>\<open>str.endsWith(suffix)\<close>.\<close>

definition endsWith :: "string \<Rightarrow> string \<Rightarrow> bool" where
  "endsWith suf s =
     (length suf \<le> length s \<and> drop (length s - length suf) s = suf)"

text \<open>
  \<^verbatim>\<open>RegExp.prototype.test\<close> for a pattern made of literal characters only
  (every pattern of \<^verbatim>\<open>DO_NOT_BUILD_PATHS\<close> is one): the literal occurs somewhere
  in the string.
\<close>

fun regexTest :: "string \<Rightarrow> string \<Rightarrow> bool" where
  "regexTest pat [] = (pat = [])"
| "regexTest pat (c # cs) = (prefix pat (c # cs) \<or> regexTest pat cs)"

text \<open>
  \<^verbatim>\<open>replace(pattern, replacement, str)\<close> of rambdax with a string pattern:
  \<^verbatim>\<open>str.replace(pattern, replacement)\<close>, which replaces the first occurrence
  only. Wherever the result is used below the replacement is the empty string, so
  the dollar patterns of a replacement string play no part.
\<close>

fun replace :: "string \<Rightarrow> string \<Rightarrow> string \<Rightarrow> string" where
  "replace pat rep [] = (if pat = [] then rep else [])"
| "replace pat rep (c # cs) =
     (if prefix pat (c # cs) then rep @ drop (length pat) (c # cs)
      else c # replace pat rep cs)"

text \<open>\<^verbatim>\<open>tail(str)\<close> of rambdax: \<^verbatim>\<open>str.slice(1)\<close>.\<close>

definition tail :: "string \<Rightarrow> string" where
  "tail s = drop 1 s"

text \<open>
  \<^verbatim>\<open>path.dirname\<close> of Node.js (POSIX): the loop runs from the last index down to
  index 1 and stops at the first separator met after a character that is not one.
\<close>

fun dirname_loop :: "string \<Rightarrow> nat \<Rightarrow> bool \<Rightarrow> nat option" where
  "dirname_loop p 0 matchedSlash = None"
| "dirname_loop p (Suc i) matchedSlash =
     (if p ! Suc i = CHR ''/''
      then (if \<not> matchedSlash then Some (Suc i) else dirname_loop p i matchedSlash)
      else dirname_loop p i False)"

definition dirname :: "string \<Rightarrow> string" where
  "dirname p =
     (if p = [] then ''.''
      else
        (let hasRoot = (hd p = CHR ''/'') in
         case dirname_loop p (length p - 1) True of
           None \<Rightarrow> (if hasRoot then ''/'' else ''.'')
         | Some e \<Rightarrow> (if hasRoot \<and> e = 1 then ''//'' else take e p)))"

section \<open>Configuration\<close>

datatype json =
  JString string
| JBool bool
| JNumber int
| JNull
| JArray "json list"
| JObject "(string \<times> json) list"

text \<open>An object by its keys; the order of the keys plays no part below.\<close>

type_synonym obj = "string \<rightharpoonup> json"

text \<open>
  What the script takes from its environment: the project root (the directory above
  \<^verbatim>\<open>scripts\<close>, absolute), the object read from \<^verbatim>\<open>package.json\<close>, the string
  \<^verbatim>\<open>pkg.name\<close>, and whether \<^verbatim>\<open>NODE_ENV\<close> is \<^verbatim>\<open>development\<close>.
\<close>

record config =
  ROOT :: string
  pkg :: obj
  pkg_name :: string
  isDevelopment :: bool

text \<open>
  \<^verbatim>\<open>resolvePath(...paths)\<close>: \<^verbatim>\<open>path.resolve\<close> from the project root. An empty
  segment is skipped and an absolute segment starts over; the segments the script
  passes (fixed names, a format, a resolved directory) need no other normalisation.
\<close>

definition resolveSegment :: "string \<Rightarrow> string \<Rightarrow> string" where
  "resolveSegment base seg =
     (if seg = [] then base
      else if hd seg = CHR ''/'' then seg
      else if base = ''/'' then base @ seg
      else base @ ''/'' @ seg)"

definition resolvePath :: "config \<Rightarrow> string list \<Rightarrow> string" where
  "resolvePath cfg paths = foldl resolveSegment (ROOT cfg) paths"

definition ESM_MODULES :: string where
  "ESM_MODULES = ''esm''"

definition CJS_MODULES :: string where
  "CJS_MODULES = ''cjs''"

definition SOURCE_PATH :: "config \<Rightarrow> string" where
  "SOURCE_PATH cfg = resolvePath cfg [''src'']"

definition DIST_PATH :: "config \<Rightarrow> string" where
  "DIST_PATH cfg = resolvePath cfg [''dist'']"

definition DEV_PATH :: "config \<Rightarrow> string" where
  "DEV_PATH cfg = resolvePath cfg [''dev'']"

definition DIR_PATH :: "config \<Rightarrow> string" where
  "DIR_PATH cfg = (if isDevelopment cfg then DEV_PATH cfg else DIST_PATH cfg)"

section \<open>Path classifier\<close>

text \<open>The regular expressions of \<^verbatim>\<open>DO_NOT_BUILD_PATHS\<close>, as the literals they search for.\<close>

definition DO_NOT_BUILD_PATHS :: "string list" where
  "DO_NOT_BUILD_PATHS =
     [''adapters/__tests__'',
      ''test.js'',
      ''type.js'',
      ''integrationTest.js'',
      ''__mocks__'',
      ''Collection/RecordCache.js'',
      ''.DS_Store'']"

text \<open>\<^verbatim>\<open>anymatch(matchers, value)\<close>: some matcher's \<^verbatim>\<open>test\<close> accepts the value.\<close>

definition anymatch :: "string list \<Rightarrow> string \<Rightarrow> bool" where
  "anymatch matchers v = list_ex (\<lambda>m. regexTest m v) matchers"

definition isNotIncludedInBuildPaths :: "string \<Rightarrow> bool" where
  "isNotIncludedInBuildPaths v = (\<not> anymatch DO_NOT_BUILD_PATHS v)"

text \<open>An item of the tree walk; the script reads its \<^verbatim>\<open>path\<close> only.\<close>

record item =
  path :: string

definition takeFiles :: "item \<Rightarrow> bool" where
  "takeFiles it = (endsWith ''.js'' (path it) \<and> isNotIncludedInBuildPaths (path it))"

definition takeModules :: "item list \<Rightarrow> string list" where
  "takeModules its = map path (filter takeFiles its)"

section \<open>Module names\<close>

definition removeSourcePath :: "config \<Rightarrow> string \<Rightarrow> string" where
  "removeSourcePath cfg s = replace (SOURCE_PATH cfg) '''' s"

definition createPathName :: "config \<Rightarrow> string \<Rightarrow> string" where
  "createPathName cfg file =
     (let v = removeSourcePath cfg file in
      if endsWith ''index.js'' v then dirname v else replace ''.js'' '''' v)"

definition createModuleName :: "config \<Rightarrow> string \<Rightarrow> string" where
  "createModuleName cfg name =
     (let m = tail name in
      pkg_name cfg @ (if m = '''' then m else ''/'' @ m))"


text \<open>
  The derivation in the words of the specification: the path relative to the source
  root; its directory when it ends with the index file name, otherwise the path
  without its extension; the package name alone when nothing follows the leading
  separator, otherwise the package name, a separator and the derived name.
\<close>

definition spec_removeExtension :: "string \<Rightarrow> string" where
  "spec_removeExtension r = (if endsWith ''.js'' r then take (length r - 3) r else r)"

definition spec_derivedName :: "string \<Rightarrow> string" where
  "spec_derivedName r =
     (if endsWith ''index.js'' r then dirname r else spec_removeExtension r)"

definition spec_moduleName :: "config \<Rightarrow> string \<Rightarrow> string" where
  "spec_moduleName cfg file =
     (let r = drop (length (SOURCE_PATH cfg)) file;
          d = drop 1 (spec_derivedName r)
      in if d = [] then pkg_name cfg else pkg_name cfg @ ''/'' @ d)"

text \<open>
  The root-relative paths the tree walk yields for ordinary source files: a leading
  separator and the extension \<^verbatim>\<open>.js\<close>; then either a path that ends with
  \<^verbatim>\<open>index.js\<close> (which the script takes for a directory index whatever comes before
  \<^verbatim>\<open>index\<close> in the file name), not a file right under a doubled leading separator, or
  any other file, except \<^verbatim>\<open>/.js\<close>, whose only occurrence of \<^verbatim>\<open>.js\<close> is its
  extension.
\<close>

definition isDirectoryIndex :: "string \<Rightarrow> bool" where
  "isDirectoryIndex r = endsWith ''index.js'' r"

definition ordinaryRelPath :: "string \<Rightarrow> bool" where
  "ordinaryRelPath r =
     (r \<noteq> [] \<and> hd r = CHR ''/'' \<and> endsWith ''.js'' r \<and>
      (if isDirectoryIndex r
       then \<not> (take 2 r = ''//'' \<and> CHR ''/'' \<notin> set (drop 2 r))
       else r \<noteq> ''/.js'' \<and> \<not> regexTest ''.js'' (take (length r - 3) r)))"

section \<open>Manifest text\<close>

record mapping_entry =
  entry_key :: string
  entry_value :: string

text \<open>\<^verbatim>\<open>join(separator, list)\<close> of rambdax: \<^verbatim>\<open>list.join(separator)\<close>.\<close>

fun join :: "string \<Rightarrow> string list \<Rightarrow> string" where
  "join sep [] = []"
| "join sep [x] = x"
| "join sep (x # y # ys) = x @ sep @ join sep (y # ys)"

definition toStringKeyValue :: "mapping_entry \<Rightarrow> string" where
  "toStringKeyValue m =
     [CHR 0x27] @ entry_key m @ [CHR 0x27] @ '': '' @ [CHR 0x27] @ entry_value m @ [CHR 0x27]"

definition indentLine :: "string \<Rightarrow> string" where
  "indentLine line = ''    '' @ line @ '',''"

definition toStringObject :: "mapping_entry list \<Rightarrow> string" where
  "toStringObject obj = join [CHR 0x0A] (map (\<lambda>m. indentLine (toStringKeyValue m)) obj)"

definition pathMappingTemplate :: "mapping_entry list \<Rightarrow> string" where
  "pathMappingTemplate obj =
     [CHR 0x0A, CHR 0x22] @ ''use strict'' @ [CHR 0x22, CHR 0x0A, CHR 0x0A] @
     ''module.exports = function() {'' @ [CHR 0x0A] @
     ''  return {'' @ [CHR 0x0A] @
     toStringObject obj @ [CHR 0x0A] @
     ''  }'' @ [CHR 0x0A] @
     ''}'' @ [CHR 0x0A] @
     ''  ''"

text \<open>The object \<^verbatim>\<open>buildPathMapping(format)\<close> makes of one file.\<close>

definition pathMappingEntry :: "config \<Rightarrow> string \<Rightarrow> string \<Rightarrow> mapping_entry" where
  "pathMappingEntry cfg format file =
     (let name = createPathName cfg file in
      \<lparr>entry_key = createModuleName cfg name,
       entry_value =
         (if isDevelopment cfg then DEV_PATH cfg else pkg_name cfg) @ ''/'' @ format @ name\<rparr>)"

text \<open>The first stage of the pipe in \<^verbatim>\<open>buildPathMapping(format)\<close>: one object per file.\<close>

definition pathMappingEntries :: "config \<Rightarrow> string \<Rightarrow> string list \<Rightarrow> mapping_entry list" where
  "pathMappingEntries cfg format files = map (pathMappingEntry cfg format) files"

text \<open>
  The location of a file in the words of the specification: the development directory
  (in development mode) or the package name, then the format and the derived name.
\<close>

definition spec_location :: "config \<Rightarrow> string \<Rightarrow> string \<Rightarrow> string" where
  "spec_location cfg format r =
     (if isDevelopment cfg then DEV_PATH cfg else pkg_name cfg) @ ''/'' @ format @
     spec_derivedName r"

text \<open>
  The manifest as its reader gets it. The module returns an object literal with one
  quoted key and one quoted value per line, in the order of the entries; in
  JavaScript a key that comes again replaces the value of the earlier one. The text
  is that literal only when no key and no value has a quote, a backslash or a line
  break, which \<^verbatim>\<open>toStringKeyValue\<close> does not escape; otherwise there is no result.
\<close>

definition safeLiteral :: "string \<Rightarrow> bool" where
  "safeLiteral s = list_all (\<lambda>c. c \<noteq> CHR 0x27 \<and> c \<noteq> CHR 0x5C \<and> c \<noteq> CHR 0x0A \<and> c \<noteq> CHR 0x0D) s"

definition manifestObject :: "mapping_entry list \<Rightarrow> (string \<rightharpoonup> string) option" where
  "manifestObject entries =
     (if list_all (\<lambda>e. safeLiteral (entry_key e) \<and> safeLiteral (entry_value e)) entries
      then Some (foldl (\<lambda>m e. m(entry_key e \<mapsto> entry_value e)) Map.empty entries)
      else None)"

section \<open>Package descriptor\<close>

text \<open>\<^verbatim>\<open>omit(keys, obj)\<close> of rambdax: a copy of the object without the keys.\<close>

definition omit :: "string list \<Rightarrow> obj \<Rightarrow> obj" where
  "omit keys ob = (\<lambda>k. if k \<in> set keys then None else ob k)"

text \<open>
  \<^verbatim>\<open>merge(obj, newProps)\<close> of rambdax: \<^verbatim>\<open>Object.assign({}, obj, newProps)\<close>; a key of
  both takes its value from \<^verbatim>\<open>newProps\<close>.
\<close>

definition merge :: "obj \<Rightarrow> obj \<Rightarrow> obj" where
  "merge ob newProps = ob ++ newProps"

definition entryPoints :: obj where
  "entryPoints =
     [''main'' \<mapsto> JString ''./cjs/index.js'',
      ''module'' \<mapsto> JString ''./esm/index.js'',
      ''sideEffects'' \<mapsto> JBool False]"

text \<open>
  What is written to a file: text, or the text \<^verbatim>\<open>prettyJson\<close> prints for an object.
\<close>

datatype file_content = Source string | PrettyJson obj

text \<open>
  \<^verbatim>\<open>prepareJson\<close>: in the pipe, the partial application \<^verbatim>\<open>merge({main, module,
  sideEffects})\<close> receives the object without its scripts as its second argument.
\<close>

definition prepareJson_object :: "obj \<Rightarrow> obj" where
  "prepareJson_object ob = merge entryPoints (omit [''scripts''] ob)"

definition prepareJson :: "obj \<Rightarrow> file_content" where
  "prepareJson ob = PrettyJson (prepareJson_object ob)"

section \<open>Effects\<close>

text \<open>
  A run of the script is the sequence of calls it makes to its libraries, in order.
  A synchronous call to the file system may throw; which calls throw is a property of
  the world the script runs in. The script has no \<^verbatim>\<open>await\<close> and no \<^verbatim>\<open>then\<close> at its top
  level: the promise of every asynchronous call is dropped, and the call is over, for
  the script, when it has been made.
\<close>

datatype js_error = Error string

datatype event =
  Klaw string
| RimrafSync string
| MkdirpSync string
| WriteFileSync string file_content
| CopySync string string
| ChokidarWatch string "string list"
| ConsoleLog string
| ConsoleError js_error
| BuildModule string string
| MapAsyncBuildModule string "string list"

record world =
  throws :: "event \<Rightarrow> js_error option"
  trace :: "event list"

datatype outcome = Threw js_error world | Done world

definition emit :: "event \<Rightarrow> world \<Rightarrow> world" where
  "emit ev w = w\<lparr>trace := trace w @ [ev]\<rparr>"

definition perform :: "event \<Rightarrow> world \<Rightarrow> outcome" where
  "perform ev w =
     (case throws w ev of
        Some err \<Rightarrow> Threw err w
      | None \<Rightarrow> Done (emit ev w))"

text \<open>Statements in sequence: the first one that throws ends the sequence.\<close>

fun run :: "(world \<Rightarrow> outcome) list \<Rightarrow> world \<Rightarrow> outcome" where
  "run [] w = Done w"
| "run (s # ss) w =
     (case s w of
        Threw err w' \<Rightarrow> Threw err w'
      | Done w' \<Rightarrow> run ss w')"

definition try_catch :: "(world \<Rightarrow> outcome) \<Rightarrow> (js_error \<Rightarrow> world \<Rightarrow> outcome) \<Rightarrow> world \<Rightarrow> outcome" where
  "try_catch body handler w =
     (case body w of
        Threw err w' \<Rightarrow> handler err w'
      | Done w' \<Rightarrow> Done w')"

text \<open>Reading an outcome: whether the run ended without throwing, and the world it left.\<close>

fun finished :: "outcome \<Rightarrow> bool" where
  "finished (Done w) = True"
| "finished (Threw err w) = False"

fun world_of :: "outcome \<Rightarrow> world" where
  "world_of (Done w) = w"
| "world_of (Threw err w) = w"

definition trace_of :: "outcome \<Rightarrow> event list" where
  "trace_of r = trace (world_of r)"

text \<open>The first event with \<open>P\<close> has an event with \<open>Q\<close> after it.\<close>

fun precedes :: "(event \<Rightarrow> bool) \<Rightarrow> (event \<Rightarrow> bool) \<Rightarrow> event list \<Rightarrow> bool" where
  "precedes P Q [] = False"
| "precedes P Q (e # es) = (if P e then list_ex Q es else precedes P Q es)"

fun writesTo :: "string \<Rightarrow> event \<Rightarrow> bool" where
  "writesTo p (WriteFileSync q c) = (q = p)"
| "writesTo p e = False"

fun isFileSystemWrite :: "event \<Rightarrow> bool" where
  "isFileSystemWrite (WriteFileSync q c) = True"
| "isFileSystemWrite (MkdirpSync q) = True"
| "isFileSystemWrite (RimrafSync q) = True"
| "isFileSystemWrite (CopySync q r) = True"
| "isFileSystemWrite e = False"

section \<open>Steps of the build\<close>

definition cleanFolder :: "string \<Rightarrow> world \<Rightarrow> outcome" where
  "cleanFolder dir = perform (RimrafSync dir)"

definition createFolder :: "config \<Rightarrow> string \<Rightarrow> world \<Rightarrow> outcome" where
  "createFolder cfg dir = perform (MkdirpSync (resolvePath cfg [dir]))"

definition createPackageJson :: "config \<Rightarrow> string \<Rightarrow> obj \<Rightarrow> world \<Rightarrow> outcome" where
  "createPackageJson cfg dir ob =
     perform (WriteFileSync (resolvePath cfg [dir, ''package.json'']) (prepareJson ob))"

definition copyFiles :: "config \<Rightarrow> string \<Rightarrow> string list \<Rightarrow> world \<Rightarrow> outcome" where
  "copyFiles cfg dir files =
     run (map (\<lambda>file. perform (CopySync (resolvePath cfg [file]) (resolvePath cfg [dir, file])))
            files)"

text \<open>
  \<^verbatim>\<open>buildPathMapping(format)\<close>: the entries, the text, and the write inside
  \<^verbatim>\<open>try\<close>; the \<^verbatim>\<open>catch\<close> prints the error and returns.
\<close>

definition buildPathMapping :: "config \<Rightarrow> string \<Rightarrow> string list \<Rightarrow> world \<Rightarrow> outcome" where
  "buildPathMapping cfg format files =
     (let content = pathMappingTemplate (pathMappingEntries cfg format files) in
      try_catch
        (run [perform (MkdirpSync (resolvePath cfg [DIR_PATH cfg, format])),
              perform (WriteFileSync (resolvePath cfg [DIR_PATH cfg, format, ''path-mapping.js''])
                         (Source content))])
        (\<lambda>err w. Done (emit (ConsoleError err) w)))"

definition buildCjsPathMapping :: "config \<Rightarrow> string list \<Rightarrow> world \<Rightarrow> outcome" where
  "buildCjsPathMapping cfg = buildPathMapping cfg CJS_MODULES"

definition buildEsmPathMapping :: "config \<Rightarrow> string list \<Rightarrow> world \<Rightarrow> outcome" where
  "buildEsmPathMapping cfg = buildPathMapping cfg ESM_MODULES"

text \<open>
  \<^verbatim>\<open>buildModule(format)(file)\<close> is an \<^verbatim>\<open>async\<close> function: the call hands the file to
  the bundler and returns a promise; it does not throw.
\<close>

definition buildModule :: "string \<Rightarrow> string \<Rightarrow> world \<Rightarrow> outcome" where
  "buildModule format file w = Done (emit (BuildModule format file) w)"

section \<open>Development pipeline\<close>

text \<open>\<^verbatim>\<open>buildModules\<close> of the development branch.\<close>

definition dev_buildModules :: "string \<Rightarrow> world \<Rightarrow> outcome" where
  "dev_buildModules file = run [buildModule CJS_MODULES file, buildModule ESM_MODULES file]"

text \<open>The listener of the watcher's \<^verbatim>\<open>all\<close> event.\<close>

definition onAll :: "config \<Rightarrow> string \<Rightarrow> string \<Rightarrow> world \<Rightarrow> outcome" where
  "onAll cfg event fileOrDir =
     (if event = ''add'' \<or> event = ''change''
      then run [\<lambda>w. Done (emit (ConsoleLog ([CHR 0xE2, CHR 0x9C, CHR 0x93] @ '' '' @
                                  removeSourcePath cfg fileOrDir)) w),
                dev_buildModules fileOrDir]
      else Done)"

definition development :: "config \<Rightarrow> string list \<Rightarrow> world \<Rightarrow> outcome" where
  "development cfg modules =
     run [cleanFolder (DEV_PATH cfg),
          createFolder cfg (DEV_PATH cfg),
          buildCjsPathMapping cfg modules,
          buildEsmPathMapping cfg modules,
          perform (ChokidarWatch (resolvePath cfg [''src'']) DO_NOT_BUILD_PATHS)]"

text \<open>
  The watcher: with the option \<^verbatim>\<open>ignored\<close>, chokidar tests every path against the
  patterns with \<^verbatim>\<open>anymatch\<close> and reports nothing for a path that matches; for any
  other path it calls the listener.
\<close>

definition chokidar_all :: "config \<Rightarrow> string \<times> string \<Rightarrow> world \<Rightarrow> outcome" where
  "chokidar_all cfg e w =
     (if anymatch DO_NOT_BUILD_PATHS (snd e) then Done w else onAll cfg (fst e) (snd e) w)"

fun watchLoop :: "config \<Rightarrow> (string \<times> string) list \<Rightarrow> world \<Rightarrow> outcome" where
  "watchLoop cfg [] w = Done w"
| "watchLoop cfg (e # es) w =
     (case chokidar_all cfg e w of
        Threw err w' \<Rightarrow> Threw err w'
      | Done w' \<Rightarrow> watchLoop cfg es w')"

section \<open>Production pipeline\<close>

text \<open>
  \<^verbatim>\<open>buildModules(format)\<close> of the production branch: \<^verbatim>\<open>mapAsync(buildModule(format))\<close>,
  called with the list of modules; the promise it returns is dropped.
\<close>

definition prod_buildModules :: "string \<Rightarrow> string list \<Rightarrow> world \<Rightarrow> outcome" where
  "prod_buildModules format files w = Done (emit (MapAsyncBuildModule format files) w)"

definition production :: "config \<Rightarrow> string list \<Rightarrow> world \<Rightarrow> outcome" where
  "production cfg modules =
     run [cleanFolder (DIST_PATH cfg),
          createFolder cfg (DIST_PATH cfg),
          createPackageJson cfg (DIST_PATH cfg) (pkg cfg),
          copyFiles cfg (DIST_PATH cfg)
            [''LICENSE'', ''README.md'', ''yarn.lock'', ''docs'', ''src'', ''native''],
          buildCjsPathMapping cfg modules,
          buildEsmPathMapping cfg modules,
          prod_buildModules ESM_MODULES modules,
          prod_buildModules CJS_MODULES modules]"

section \<open>The script\<close>

text \<open>
  The tree walk \<^verbatim>\<open>klaw(SOURCE_PATH)\<close> runs when the script is loaded, before either
  branch; \<open>tree\<close> is what it returns.
\<close>

definition make :: "config \<Rightarrow> item list \<Rightarrow> world \<Rightarrow> outcome" where
  "make cfg tree =
     run [perform (Klaw (SOURCE_PATH cfg)),
          (if isDevelopment cfg
           then development cfg (takeModules tree)
           else production cfg (takeModules tree))]"

section \<open>Example inputs\<close>

definition example_pkg :: obj where
  "example_pkg =
     [''name'' \<mapsto> JString ''lib'',
      ''main'' \<mapsto> JString ''index.js'',
      ''scripts'' \<mapsto> JObject [(''build'', JString ''node scripts/make.js'')]]"

definition example_config :: config where
  "example_config =
     \<lparr>ROOT = ''/proj'', pkg = example_pkg, pkg_name = ''lib'', isDevelopment = False\<rparr>"

definition example_dev_config :: config where
  "example_dev_config = example_config\<lparr>isDevelopment := True\<rparr>"

definition example_tree :: "item list" where
  "example_tree =
     [\<lparr>path = ''/proj/src/index.js''\<rparr>,
      \<lparr>path = ''/proj/src/Foo''\<rparr>,
      \<lparr>path = ''/proj/src/Foo/index.js''\<rparr>,
      \<lparr>path = ''/proj/src/Foo/bar.js''\<rparr>,
      \<lparr>path = ''/proj/src/Foo/__tests__/bar.test.js''\<rparr>]"

text \<open>A world in which no call throws, and one in which the CommonJS manifest cannot be written.\<close>

definition quiet_world :: world where
  "quiet_world = \<lparr>throws = (\<lambda>ev. None), trace = []\<rparr>"

definition readonly_cjs_world :: world where
  "readonly_cjs_world =
     \<lparr>throws = (\<lambda>ev. if writesTo ''/proj/dist/cjs/path-mapping.js'' ev
                      then Some (Error ''EACCES'') else None),
      trace = []\<rparr>"

section \<open>Facts about the string functions\<close>

lemma endsWith_iff_suffix: "endsWith suf s \<longleftrightarrow> suffix suf s"
proof
  assume "endsWith suf s"
  then have "s = take (length s - length suf) s @ suf"
    by (metis append_take_drop_id endsWith_def)
  then show "suffix suf s"
    by (metis suffixI)
next
  assume "suffix suf s"
  then obtain zs where "s = zs @ suf"
    by (auto simp: suffix_def)
  then show "endsWith suf s"
    by (simp add: endsWith_def)
qed

lemma regexTest_iff: "regexTest pat s \<longleftrightarrow> (\<exists>pre post. s = pre @ pat @ post)"
proof (induction s)
  case Nil
  then show ?case by auto
next
  case (Cons c cs)
  show ?case
  proof
    assume "regexTest pat (c # cs)"
    then consider "prefix pat (c # cs)" | "regexTest pat cs" by auto
    then show "\<exists>pre post. c # cs = pre @ pat @ post"
    proof cases
      case 1
      then obtain post where "c # cs = pat @ post" by (auto simp: prefix_def)
      then have "c # cs = [] @ pat @ post" by simp
      then show ?thesis by blast
    next
      case 2
      with Cons.IH obtain pre post where "cs = pre @ pat @ post" by blast
      then have "c # cs = (c # pre) @ pat @ post" by simp
      then show ?thesis by blast
    qed
  next
    assume "\<exists>pre post. c # cs = pre @ pat @ post"
    then obtain pre post where eq: "c # cs = pre @ pat @ post" by blast
    show "regexTest pat (c # cs)"
    proof (cases pre)
      case Nil
      with eq have "prefix pat (c # cs)" by (simp add: prefix_def)
      then show ?thesis by simp
    next
      case (Cons d pre')
      with eq have "cs = pre' @ pat @ post" by simp
      with Cons.IH have "regexTest pat cs" by blast
      then show ?thesis by simp
    qed
  qed
qed


lemma replace_prefix: "replace pat rep (pat @ s) = rep @ s"
proof (cases "pat @ s")
  case Nil
  then show ?thesis by simp
next
  case (Cons a list)
  then have "prefix pat (a # list)"
    by (metis prefixI)
  then have "replace pat rep (a # list) = rep @ drop (length pat) (a # list)"
    by simp
  moreover from Cons have "drop (length pat) (a # list) = s"
    by (metis append_eq_conv_conj)
  ultimately show ?thesis using Cons by simp
qed

lemma removeSourcePath_relative: "removeSourcePath cfg (SOURCE_PATH cfg @ r) = r"
  using replace_prefix [of "SOURCE_PATH cfg" "[]" r] by (simp add: removeSourcePath_def)

lemma not_prefix_js_straddle:
  assumes "\<not> prefix ''.js'' (c # cs)"
  shows "\<not> prefix ''.js'' (c # cs @ ''.js'')"
proof (cases cs)
  case Nil
  then show ?thesis by simp
next
  case (Cons x xs)
  then show ?thesis using assms by (cases xs) auto
qed

lemma replace_js_only_extension:
  "\<not> regexTest ''.js'' b \<Longrightarrow> replace ''.js'' [] (b @ ''.js'') = b"
proof (induction b)
  case Nil
  then show ?case by simp
next
  case (Cons c cs)
  then have np: "\<not> prefix ''.js'' (c # cs)" and nr: "\<not> regexTest ''.js'' cs"
    by auto
  from np have "\<not> prefix ''.js'' (c # cs @ ''.js'')"
    by (rule not_prefix_js_straddle)
  then have "replace ''.js'' [] ((c # cs) @ ''.js'') = c # replace ''.js'' [] (cs @ ''.js'')"
    by (simp only: append_Cons replace.simps if_False)
  with Cons.IH [OF nr] show ?case by simp
qed

lemma dirname_loop_skip:
  "(\<forall>j. i < j \<and> j \<le> n \<longrightarrow> p ! j \<noteq> CHR ''/'') \<Longrightarrow> i \<le> n \<Longrightarrow> i < n \<or> \<not> ms \<Longrightarrow>
   dirname_loop p n ms = dirname_loop p i False"
proof (induction n arbitrary: ms)
  case 0
  then show ?case by simp
next
  case (Suc n)
  show ?case
  proof (cases "i = Suc n")
    case True
    with Suc.prems show ?thesis by simp
  next
    case False
    with Suc.prems have le: "i \<le> n" and top: "p ! Suc n \<noteq> CHR ''/''"
      by auto
    from Suc.prems have "\<forall>j. i < j \<and> j \<le> n \<longrightarrow> p ! j \<noteq> CHR ''/''"
      by auto
    from Suc.IH [OF this le, of False] top show ?thesis by simp
  qed
qed

lemma dirname_loop_base:
  assumes "base \<noteq> []" "CHR ''/'' \<notin> set base"
  shows "dirname_loop (d @ CHR ''/'' # base) (length d + length base) True =
         (if d = [] then None else Some (length d))"
proof -
  let ?p = "d @ CHR ''/'' # base"
  have nosep: "\<forall>j. length d < j \<and> j \<le> length d + length base \<longrightarrow> ?p ! j \<noteq> CHR ''/''"
  proof (intro allI impI)
    fix j assume j: "length d < j \<and> j \<le> length d + length base"
    then have "?p ! j = base ! (j - length d - 1)"
      by (simp add: nth_append nth_Cons')
    moreover from j have "j - length d - 1 < length base" by arith
    ultimately show "?p ! j \<noteq> CHR ''/''"
      using assms(2) by (metis nth_mem)
  qed
  from assms(1) have "length d < length d + length base" by simp
  with dirname_loop_skip [OF nosep, of True]
  have skip: "dirname_loop ?p (length d + length base) True = dirname_loop ?p (length d) False"
    by simp
  show ?thesis
  proof (cases d)
    case Nil
    with skip show ?thesis by simp
  next
    case (Cons x xs)
    then have "dirname_loop ?p (length d) False = Some (length d)"
      by (simp add: nth_append)
    with skip Cons show ?thesis by simp
  qed
qed

lemma dirname_of_file:
  assumes "base \<noteq> []" "CHR ''/'' \<notin> set base"
  shows "dirname (d @ CHR ''/'' # base) =
         (if d = [] then ''/'' else if d = ''/'' then ''//'' else d)"
proof (cases d)
  case Nil
  with dirname_loop_base [OF assms, of d] show ?thesis
    by (simp add: dirname_def)
next
  case (Cons x xs)
  with dirname_loop_base [OF assms, of d]
  have "dirname (d @ CHR ''/'' # base) = (if x = CHR ''/'' \<and> xs = [] then ''//'' else d)"
    by (simp add: dirname_def)
  with Cons show ?thesis by auto
qed

section \<open>Module names of ordinary paths\<close>

lemma rooted_two:
  assumes "b \<noteq> []" "hd b = CHR ''/''" "b \<noteq> ''/''"
  shows "\<exists>y ys. b = CHR ''/'' # y # ys"
proof (cases b)
  case Nil
  with assms show ?thesis by simp
next
  case (Cons x xs)
  with assms show ?thesis by (cases xs) auto
qed

lemma first_occurrence_unique:
  "x \<notin> set xs \<Longrightarrow> x \<notin> set xs' \<Longrightarrow> xs @ x # ys = xs' @ x # ys' \<Longrightarrow> xs = xs' \<and> ys = ys'"
proof (induction xs arbitrary: xs')
  case Nil
  then show ?case by (cases xs') auto
next
  case (Cons a xs)
  then show ?case by (cases xs') auto
qed

lemma last_separator_unique:
  assumes "d @ CHR ''/'' # f = d' @ CHR ''/'' # f'"
    and "CHR ''/'' \<notin> set f" and "CHR ''/'' \<notin> set f'"
  shows "d = d' \<and> f = f'"
proof -
  from assms(1) have "rev (d @ CHR ''/'' # f) = rev (d' @ CHR ''/'' # f')" by simp
  then have eq: "rev f @ CHR ''/'' # rev d = rev f' @ CHR ''/'' # rev d'" by simp
  from assms(2) have nf: "CHR ''/'' \<notin> set (rev f)" by simp
  from assms(3) have nf': "CHR ''/'' \<notin> set (rev f')" by simp
  from first_occurrence_unique [OF nf nf' eq] show ?thesis by simp
qed

lemma index_moduleName:
  assumes "ordinaryRelPath r" "isDirectoryIndex r"
  shows "\<exists>d f. r = d @ CHR ''/'' # f \<and> CHR ''/'' \<notin> set f \<and>
             (d = [] \<or> (\<exists>y ys. d = CHR ''/'' # y # ys)) \<and>
             createPathName cfg (SOURCE_PATH cfg @ r) = (if d = [] then ''/'' else d) \<and>
             createModuleName cfg (createPathName cfg (SOURCE_PATH cfg @ r)) = pkg_name cfg @ d"
proof -
  from assms have ne: "r \<noteq> []" and hd: "hd r = CHR ''/''"
    and idx: "suffix ''index.js'' r"
    and root: "\<not> (take 2 r = ''//'' \<and> CHR ''/'' \<notin> set (drop 2 r))"
    by (auto simp: ordinaryRelPath_def isDirectoryIndex_def endsWith_iff_suffix)
  from ne hd have "CHR ''/'' \<in> set r" by (cases r) auto
  then obtain d f where r: "r = d @ CHR ''/'' # f" and f: "CHR ''/'' \<notin> set f"
    using split_list_last by fastforce
  from idx obtain z where "r = z @ ''index.js''" by (auto simp: suffix_def)
  then have "last r = CHR ''s''" by simp
  with r have fne: "f \<noteq> []" by auto
  have d1: "d \<noteq> ''/''"
  proof
    assume "d = ''/''"
    with r f have "take 2 r = ''//'' \<and> CHR ''/'' \<notin> set (drop 2 r)" by simp
    with root show False by simp
  qed
  have shape: "d = [] \<or> (\<exists>y ys. d = CHR ''/'' # y # ys)"
  proof (cases "d = []")
    case True
    then show ?thesis by simp
  next
    case False
    with hd r have "hd d = CHR ''/''" by (cases d) auto
    with False d1 show ?thesis using rooted_two by blast
  qed
  from fne f have "dirname (d @ CHR ''/'' # f) =
      (if d = [] then ''/'' else if d = ''/'' then ''//'' else d)"
    by (rule dirname_of_file)
  with d1 r have dn: "dirname r = (if d = [] then ''/'' else d)" by simp
  from assms(2) have "endsWith ''index.js'' r" by (simp add: isDirectoryIndex_def)
  with dn have name: "createPathName cfg (SOURCE_PATH cfg @ r) = (if d = [] then ''/'' else d)"
    by (simp add: createPathName_def removeSourcePath_relative)
  from shape have "createModuleName cfg (if d = [] then ''/'' else d) = pkg_name cfg @ d"
    by (auto simp: createModuleName_def tail_def)
  with name have "createModuleName cfg (createPathName cfg (SOURCE_PATH cfg @ r)) = pkg_name cfg @ d"
    by simp
  with r f shape name show ?thesis by (intro exI [of _ d] exI [of _ f]) simp
qed

lemma file_moduleName:
  assumes "ordinaryRelPath r" "\<not> isDirectoryIndex r"
  shows "\<exists>b. r = b @ ''.js'' \<and> (\<exists>y ys. b = CHR ''/'' # y # ys) \<and>
             createPathName cfg (SOURCE_PATH cfg @ r) = b \<and>
             createModuleName cfg (createPathName cfg (SOURCE_PATH cfg @ r)) = pkg_name cfg @ b"
proof -
  from assms have "suffix ''.js'' r" and hd: "hd r = CHR ''/''" and ne: "r \<noteq> ''/.js''"
    and nojs: "\<not> regexTest ''.js'' (take (length r - 3) r)"
    by (auto simp: ordinaryRelPath_def endsWith_iff_suffix)
  then obtain b where r: "r = b @ ''.js''"
    by (auto simp: suffix_def)
  with nojs have nb: "\<not> regexTest ''.js'' b" by simp
  from hd r have hb: "hd b = CHR ''/''" by (cases b) auto
  from hd r have "b \<noteq> []" by auto
  moreover from ne r have "b \<noteq> ''/''" by auto
  ultimately have shape: "\<exists>y ys. b = CHR ''/'' # y # ys"
    using hb rooted_two by blast
  from assms(2) have "\<not> endsWith ''index.js'' (b @ ''.js'')"
    by (simp add: isDirectoryIndex_def r)
  then have "createPathName cfg (SOURCE_PATH cfg @ b @ ''.js'') = b"
    by (simp add: createPathName_def removeSourcePath_relative replace_js_only_extension [OF nb])
  then have name: "createPathName cfg (SOURCE_PATH cfg @ r) = b"
    by (simp add: r)
  from shape have "createModuleName cfg b = pkg_name cfg @ b"
    by (auto simp: createModuleName_def tail_def)
  with name have "createModuleName cfg (createPathName cfg (SOURCE_PATH cfg @ r)) = pkg_name cfg @ b"
    by simp
  with r shape name show ?thesis by (intro exI [of _ b]) simp
qed

lemma spec_moduleName_relative:
  "spec_moduleName cfg (SOURCE_PATH cfg @ r) =
     (if drop 1 (spec_derivedName r) = [] then pkg_name cfg
      else pkg_name cfg @ ''/'' @ drop 1 (spec_derivedName r))"
  by (simp add: spec_moduleName_def)

lemma createPathName_agrees_with_spec:
  assumes "ordinaryRelPath r"
  shows "createPathName cfg (SOURCE_PATH cfg @ r) = spec_derivedName r"
proof (cases "isDirectoryIndex r")
  case True
  then have "endsWith ''index.js'' r" by (simp add: isDirectoryIndex_def)
  then show ?thesis
    by (simp add: createPathName_def removeSourcePath_relative spec_derivedName_def)
next
  case False
  from file_moduleName [OF assms False, of cfg] obtain b where r: "r = b @ ''.js''"
    and name: "createPathName cfg (SOURCE_PATH cfg @ r) = b"
    by blast
  from False have "\<not> endsWith ''index.js'' r" by (simp add: isDirectoryIndex_def)
  moreover have "spec_removeExtension (b @ ''.js'') = b"
    by (simp add: spec_removeExtension_def endsWith_def)
  ultimately have "spec_derivedName r = b"
    by (simp add: spec_derivedName_def r)
  with name show ?thesis by simp
qed

lemma derived_name_shape:
  assumes "ordinaryRelPath r"
  shows "\<exists>n rest. r = n @ rest \<and>
           createPathName cfg (SOURCE_PATH cfg @ r) = (if n = [] then ''/'' else n) \<and>
           (n = [] \<or> (\<exists>y ys. n = CHR ''/'' # y # ys)) \<and>
           createModuleName cfg (createPathName cfg (SOURCE_PATH cfg @ r)) = pkg_name cfg @ n"
proof (cases "isDirectoryIndex r")
  case True
  from index_moduleName [OF assms True, of cfg] obtain d f where "r = d @ CHR ''/'' # f"
    and "d = [] \<or> (\<exists>y ys. d = CHR ''/'' # y # ys)"
    and "createPathName cfg (SOURCE_PATH cfg @ r) = (if d = [] then ''/'' else d)"
    and "createModuleName cfg (createPathName cfg (SOURCE_PATH cfg @ r)) = pkg_name cfg @ d"
    by blast
  then show ?thesis by (intro exI [of _ d] exI [of _ "CHR ''/'' # f"]) simp
next
  case False
  from file_moduleName [OF assms False, of cfg] obtain b where "r = b @ ''.js''"
    and "\<exists>y ys. b = CHR ''/'' # y # ys"
    and "createPathName cfg (SOURCE_PATH cfg @ r) = b"
    and "createModuleName cfg (createPathName cfg (SOURCE_PATH cfg @ r)) = pkg_name cfg @ b"
    by blast
  then show ?thesis by (intro exI [of _ b] exI [of _ "''.js''"]) auto
qed

lemma moduleName_agrees_with_spec:
  assumes "ordinaryRelPath r"
  shows "createModuleName cfg (createPathName cfg (SOURCE_PATH cfg @ r)) =
         spec_moduleName cfg (SOURCE_PATH cfg @ r)"
proof -
  from derived_name_shape [OF assms, of cfg] obtain n where
    name: "createPathName cfg (SOURCE_PATH cfg @ r) = (if n = [] then ''/'' else n)"
    and shape: "n = [] \<or> (\<exists>y ys. n = CHR ''/'' # y # ys)"
    and m: "createModuleName cfg (createPathName cfg (SOURCE_PATH cfg @ r)) = pkg_name cfg @ n"
    by blast
  from name have "spec_derivedName r = (if n = [] then ''/'' else n)"
    by (simp add: createPathName_agrees_with_spec [OF assms])
  with shape have "spec_moduleName cfg (SOURCE_PATH cfg @ r) = pkg_name cfg @ n"
    by (auto simp: spec_moduleName_relative)
  with m show ?thesis by simp
qed

lemmas eligibility_simps =
  takeFiles_def endsWith_def isNotIncludedInBuildPaths_def anymatch_def DO_NOT_BUILD_PATHS_def

text \<open>
  C5. A path is eligible exactly when it ends in \<^verbatim>\<open>.js\<close> and no exclusion pattern
  occurs in it; a path in which an exclusion pattern occurs is ineligible whatever its
  extension. The classifier is a total function to \<^typ>\<open>bool\<close>: there is no error case.
\<close>

theorem takeFiles_eligible_iff:
  "(takeFiles it \<longleftrightarrow>
      suffix ''.js'' (path it) \<and>
      \<not> (\<exists>m \<in> set DO_NOT_BUILD_PATHS. \<exists>pre post. path it = pre @ m @ post)) \<and>
   (\<forall>m \<in> set DO_NOT_BUILD_PATHS. \<forall>pre post. \<not> takeFiles \<lparr>path = pre @ m @ post\<rparr>)"
proof -
  have excl: "anymatch DO_NOT_BUILD_PATHS v \<longleftrightarrow>
              (\<exists>m \<in> set DO_NOT_BUILD_PATHS. \<exists>pre post. v = pre @ m @ post)" for v
    by (simp only: anymatch_def list_ex_iff regexTest_iff)
  have iff: "takeFiles i \<longleftrightarrow>
      suffix ''.js'' (path i) \<and>
      \<not> (\<exists>m \<in> set DO_NOT_BUILD_PATHS. \<exists>pre post. path i = pre @ m @ post)" for i
    by (simp only: takeFiles_def isNotIncludedInBuildPaths_def excl endsWith_iff_suffix)
  have "\<not> takeFiles \<lparr>path = pre @ m @ post\<rparr>" if "m \<in> set DO_NOT_BUILD_PATHS" for m pre post
  proof -
    from that have "\<exists>m' \<in> set DO_NOT_BUILD_PATHS. \<exists>pre' post'.
        path \<lparr>path = pre @ m @ post\<rparr> = pre' @ m' @ post'"
      by (intro bexI [of _ m] exI [of _ pre] exI [of _ post]) simp_all
    then show ?thesis by (simp only: iff) simp
  qed
  with iff [of it] show ?thesis by blast
qed

theorem takeFiles_eligible_iff_witness:
  "takeFiles \<lparr>path = ''/proj/src/Foo/bar.js''\<rparr> \<and>
   \<not> takeFiles \<lparr>path = ''/proj/src/Foo/__tests__/bar.test.js''\<rparr> \<and>
   \<not> takeFiles \<lparr>path = ''/proj/src/README.md''\<rparr>"
proof -
  have "''test.js'' \<in> set DO_NOT_BUILD_PATHS"
    by (simp add: DO_NOT_BUILD_PATHS_def)
  with takeFiles_eligible_iff [of "\<lparr>path = ''/proj/src/Foo/bar.js''\<rparr>"]
  have "\<not> takeFiles \<lparr>path = ''/proj/src/Foo/__tests__/bar.'' @ ''test.js'' @ []\<rparr>"
    by blast
  moreover have "\<not> suffix ''.js'' ''/proj/src/README.md''"
    by (simp add: suffix_to_prefix)
  with takeFiles_eligible_iff [of "\<lparr>path = ''/proj/src/README.md''\<rparr>"]
  have "\<not> takeFiles \<lparr>path = ''/proj/src/README.md''\<rparr>"
    by simp
  moreover have "takeFiles \<lparr>path = ''/proj/src/Foo/bar.js''\<rparr>"
    by (simp add: eligibility_simps)
  ultimately show ?thesis by simp
qed

lemmas example_simps = example_config_def example_pkg_def

lemma example_SOURCE_PATH: "SOURCE_PATH example_config = ''/proj/src''"
  by (simp add: example_simps SOURCE_PATH_def resolvePath_def resolveSegment_def)

text \<open>
  C1. The module name of a discovered file: the path relative to the source root, its
  directory for an index file and the path without its extension otherwise, then the
  package name alone or the package name, a separator and the derived name. The script
  removes the first occurrence of \<^verbatim>\<open>.js\<close>, which is not the extension in
  \<^verbatim>\<open>data.json.js\<close>: for this eligible file the script and the rule disagree.
\<close>

theorem createPathName_first_occurrence:
  "takeFiles \<lparr>path = ''/proj/src/data.json.js''\<rparr> \<and>
   createModuleName example_config (createPathName example_config ''/proj/src/data.json.js'')
     = ''lib/dataon.js'' \<and>
   spec_moduleName example_config ''/proj/src/data.json.js'' = ''lib/data.json''"
proof -
  have "takeFiles \<lparr>path = ''/proj/src/data.json.js''\<rparr>"
    by (simp add: eligibility_simps)
  moreover have "createPathName example_config ''/proj/src/data.json.js'' = ''/dataon.js''"
    by (simp add: createPathName_def removeSourcePath_def example_SOURCE_PATH endsWith_def)
  then have "createModuleName example_config
      (createPathName example_config ''/proj/src/data.json.js'') = ''lib/dataon.js''"
    by (simp add: createModuleName_def tail_def example_simps)
  moreover have "spec_moduleName example_config ''/proj/src/data.json.js'' = ''lib/data.json''"
    by (simp add: spec_moduleName_def spec_derivedName_def spec_removeExtension_def
        example_SOURCE_PATH endsWith_def) (simp add: example_simps)
  ultimately show ?thesis by simp
qed

text \<open>
  C2, as stated: two distinct eligible files never have the same module name. The files
  \<^verbatim>\<open>a.js\<close> and \<^verbatim>\<open>a/index.js\<close> are both eligible and both are named \<^verbatim>\<open>lib/a\<close>.
\<close>

theorem moduleName_collision:
  "takeFiles \<lparr>path = ''/proj/src/a.js''\<rparr> \<and>
   takeFiles \<lparr>path = ''/proj/src/a/index.js''\<rparr> \<and>
   ''/proj/src/a.js'' \<noteq> ''/proj/src/a/index.js'' \<and>
   createModuleName example_config (createPathName example_config ''/proj/src/a.js'') =
   createModuleName example_config (createPathName example_config ''/proj/src/a/index.js'')"
proof -
  have "createPathName example_config ''/proj/src/a.js'' = ''/a''"
    by (simp add: createPathName_def removeSourcePath_def example_SOURCE_PATH endsWith_def)
  moreover have "createPathName example_config ''/proj/src/a/index.js'' = ''/a''"
    by (simp add: createPathName_def removeSourcePath_def example_SOURCE_PATH endsWith_def
        dirname_def)
  moreover have "takeFiles \<lparr>path = ''/proj/src/a.js''\<rparr>"
    by (simp add: eligibility_simps)
  moreover have "takeFiles \<lparr>path = ''/proj/src/a/index.js''\<rparr>"
    by (simp add: eligibility_simps)
  ultimately show ?thesis by simp
qed

lemma collapsed_directory:
  assumes "ordinaryRelPath r"
  shows "\<exists>n. createModuleName cfg (createPathName cfg (SOURCE_PATH cfg @ r)) = pkg_name cfg @ n \<and>
           (\<forall>d. (isDirectoryIndex r \<and> (\<exists>f. r = d @ ''/'' @ f \<and> CHR ''/'' \<notin> set f) \<or>
                 \<not> isDirectoryIndex r \<and> r = d @ ''.js'') \<longleftrightarrow> d = n)"
proof (cases "isDirectoryIndex r")
  case True
  from index_moduleName [OF assms True, of cfg] obtain n g where r: "r = n @ CHR ''/'' # g"
    and g: "CHR ''/'' \<notin> set g"
    and m: "createModuleName cfg (createPathName cfg (SOURCE_PATH cfg @ r)) = pkg_name cfg @ n"
    by blast
  have "(\<exists>f. r = d @ ''/'' @ f \<and> CHR ''/'' \<notin> set f) \<longleftrightarrow> d = n" for d
  proof
    assume "\<exists>f. r = d @ ''/'' @ f \<and> CHR ''/'' \<notin> set f"
    then obtain f where "r = d @ CHR ''/'' # f" and "CHR ''/'' \<notin> set f" by auto
    with r g show "d = n" using last_separator_unique by metis
  next
    assume "d = n"
    with r g show "\<exists>f. r = d @ ''/'' @ f \<and> CHR ''/'' \<notin> set f" by auto
  qed
  with True m show ?thesis by (intro exI [of _ n]) simp
next
  case False
  from file_moduleName [OF assms False, of cfg] obtain b where r: "r = b @ ''.js''"
    and m: "createModuleName cfg (createPathName cfg (SOURCE_PATH cfg @ r)) = pkg_name cfg @ b"
    by blast
  from r have "r = d @ ''.js'' \<longleftrightarrow> d = b" for d by auto
  with False m show ?thesis by (intro exI [of _ b]) simp
qed

text \<open>
  C2, amended: two eligible files with ordinary paths under the source root have the
  same module name exactly when they collapse to the same directory \<open>d\<close>: each of them
  is either a file right in \<open>d\<close> whose path ends with \<^verbatim>\<open>index.js\<close>, or the file
  \<^verbatim>\<open>d.js\<close> beside \<open>d\<close> whose path does not end with \<^verbatim>\<open>index.js\<close>.
\<close>

theorem moduleName_collision_iff:
  assumes "takeFiles \<lparr>path = SOURCE_PATH cfg @ r1\<rparr>" "takeFiles \<lparr>path = SOURCE_PATH cfg @ r2\<rparr>"
    and o1: "ordinaryRelPath r1" and o2: "ordinaryRelPath r2"
  shows "createModuleName cfg (createPathName cfg (SOURCE_PATH cfg @ r1)) =
         createModuleName cfg (createPathName cfg (SOURCE_PATH cfg @ r2)) \<longleftrightarrow>
         (\<exists>d. (isDirectoryIndex r1 \<and> (\<exists>f. r1 = d @ ''/'' @ f \<and> CHR ''/'' \<notin> set f) \<or>
               \<not> isDirectoryIndex r1 \<and> r1 = d @ ''.js'') \<and>
              (isDirectoryIndex r2 \<and> (\<exists>f. r2 = d @ ''/'' @ f \<and> CHR ''/'' \<notin> set f) \<or>
               \<not> isDirectoryIndex r2 \<and> r2 = d @ ''.js''))"
proof -
  from collapsed_directory [OF o1, of cfg] obtain n1 where
    m1: "createModuleName cfg (createPathName cfg (SOURCE_PATH cfg @ r1)) = pkg_name cfg @ n1"
    and c1: "\<And>d. (isDirectoryIndex r1 \<and> (\<exists>f. r1 = d @ ''/'' @ f \<and> CHR ''/'' \<notin> set f) \<or>
                 \<not> isDirectoryIndex r1 \<and> r1 = d @ ''.js'') \<longleftrightarrow> d = n1"
    by blast
  from collapsed_directory [OF o2, of cfg] obtain n2 where
    m2: "createModuleName cfg (createPathName cfg (SOURCE_PATH cfg @ r2)) = pkg_name cfg @ n2"
    and c2: "\<And>d. (isDirectoryIndex r2 \<and> (\<exists>f. r2 = d @ ''/'' @ f \<and> CHR ''/'' \<notin> set f) \<or>
                 \<not> isDirectoryIndex r2 \<and> r2 = d @ ''.js'') \<longleftrightarrow> d = n2"
    by blast
  show ?thesis
    unfolding m1 m2 c1 c2 by auto
qed

theorem moduleName_collision_iff_witness:
  "takeFiles \<lparr>path = SOURCE_PATH example_config @ ''/Model/reindex.js''\<rparr> \<and>
   takeFiles \<lparr>path = SOURCE_PATH example_config @ ''/Model.js''\<rparr> \<and>
   ordinaryRelPath ''/Model/reindex.js'' \<and> ordinaryRelPath ''/Model.js'' \<and>
   createModuleName example_config
     (createPathName example_config (SOURCE_PATH example_config @ ''/Model/reindex.js'')) =
   createModuleName example_config
     (createPathName example_config (SOURCE_PATH example_config @ ''/Model.js''))"
proof -
  have t1: "takeFiles \<lparr>path = SOURCE_PATH example_config @ ''/Model/reindex.js''\<rparr>"
    by (simp add: example_SOURCE_PATH eligibility_simps)
  have t2: "takeFiles \<lparr>path = SOURCE_PATH example_config @ ''/Model.js''\<rparr>"
    by (simp add: example_SOURCE_PATH eligibility_simps)
  have o1: "ordinaryRelPath ''/Model/reindex.js''"
    by (simp add: ordinaryRelPath_def isDirectoryIndex_def endsWith_def)
  have o2: "ordinaryRelPath ''/Model.js''"
    by (simp add: ordinaryRelPath_def isDirectoryIndex_def endsWith_def)
  have i1: "isDirectoryIndex ''/Model/reindex.js''"
    by (simp add: isDirectoryIndex_def endsWith_def)
  have i2: "\<not> isDirectoryIndex ''/Model.js''"
    by (simp add: isDirectoryIndex_def endsWith_def)
  have "''/Model/reindex.js'' = ''/Model'' @ ''/'' @ ''reindex.js'' \<and>
        CHR ''/'' \<notin> set ''reindex.js''"
    by simp
  then have "\<exists>f. ''/Model/reindex.js'' = ''/Model'' @ ''/'' @ f \<and> CHR ''/'' \<notin> set f"
    by (rule exI)
  with i1 i2 have
    "\<exists>d. (isDirectoryIndex ''/Model/reindex.js'' \<and>
            (\<exists>f. ''/Model/reindex.js'' = d @ ''/'' @ f \<and> CHR ''/'' \<notin> set f) \<or>
          \<not> isDirectoryIndex ''/Model/reindex.js'' \<and> ''/Model/reindex.js'' = d @ ''.js'') \<and>
         (isDirectoryIndex ''/Model.js'' \<and>
            (\<exists>f. ''/Model.js'' = d @ ''/'' @ f \<and> CHR ''/'' \<notin> set f) \<or>
          \<not> isDirectoryIndex ''/Model.js'' \<and> ''/Model.js'' = d @ ''.js'')"
    by (intro exI [of _ "''/Model''"]) simp
  with moduleName_collision_iff [OF t1 t2 o1 o2] t1 t2 o1 o2 show ?thesis
    by blast
qed

section \<open>Facts about the package descriptor\<close>

lemma prepareJson_object_lookup:
  "prepareJson_object ob k =
     (if k = ''scripts'' then None
      else case ob k of Some v \<Rightarrow> Some v | None \<Rightarrow> entryPoints k)"
  by (simp add: prepareJson_object_def merge_def omit_def map_add_def entryPoints_def
      split: option.split)

lemma prepareJson_object_no_scripts: "prepareJson_object ob ''scripts'' = None"
  by (simp add: prepareJson_object_lookup)

lemma prepareJson_object_defaults:
  assumes "ob ''main'' = None" "ob ''module'' = None" "ob ''sideEffects'' = None"
  shows "prepareJson_object ob ''main'' = Some (JString ''./cjs/index.js'') \<and>
         prepareJson_object ob ''module'' = Some (JString ''./esm/index.js'') \<and>
         prepareJson_object ob ''sideEffects'' = Some (JBool False)"
  using assms by (simp add: prepareJson_object_lookup entryPoints_def)

text \<open>
  C4. The package descriptor never has the key \<^verbatim>\<open>scripts\<close> and always has
  \<^verbatim>\<open>main = './cjs/index.js'\<close>, \<^verbatim>\<open>module = './esm/index.js'\<close> and
  \<^verbatim>\<open>sideEffects = false\<close>, also when the input has these keys. In the script the input
  is the second argument of \<^verbatim>\<open>merge\<close>, so its own \<^verbatim>\<open>main\<close> is kept: for a
  \<^verbatim>\<open>package.json\<close> with \<^verbatim>\<open>main = 'index.js'\<close> the descriptor has no scripts, but its
  \<^verbatim>\<open>main\<close> is \<^verbatim>\<open>'index.js'\<close>.
\<close>

theorem prepareJson_keeps_input_main:
  "prepareJson example_pkg = PrettyJson (prepareJson_object example_pkg) \<and>
   prepareJson_object example_pkg ''scripts'' = None \<and>
   prepareJson_object example_pkg ''main'' = Some (JString ''index.js'') \<and>
   prepareJson_object example_pkg ''module'' = Some (JString ''./esm/index.js'') \<and>
   prepareJson_object example_pkg ''sideEffects'' = Some (JBool False)"
  by (simp add: prepareJson_def prepareJson_object_lookup example_pkg_def entryPoints_def)

section \<open>Facts about effects\<close>

lemma throws_emit [simp]: "throws (emit ev w) = throws w"
  by (simp add: emit_def)

lemma trace_emit [simp]: "trace (emit ev w) = trace w @ [ev]"
  by (simp add: emit_def)

section \<open>Facts about the manifest\<close>

lemma pathMappingEntry_key:
  "entry_key (pathMappingEntry cfg format file) = createModuleName cfg (createPathName cfg file)"
  by (simp add: pathMappingEntry_def Let_def)

lemma pathMappingEntry_value:
  "entry_value (pathMappingEntry cfg format file) =
     (if isDevelopment cfg then DEV_PATH cfg else pkg_name cfg) @ ''/'' @ format @
     createPathName cfg file"
  by (simp add: pathMappingEntry_def Let_def)

lemma buildPathMapping_quiet:
  assumes "throws w (MkdirpSync (resolvePath cfg [DIR_PATH cfg, format])) = None"
    and "throws w (WriteFileSync (resolvePath cfg [DIR_PATH cfg, format, ''path-mapping.js''])
           (Source (pathMappingTemplate (pathMappingEntries cfg format files)))) = None"
  shows "buildPathMapping cfg format files w =
     Done (emit (WriteFileSync (resolvePath cfg [DIR_PATH cfg, format, ''path-mapping.js''])
                   (Source (pathMappingTemplate (pathMappingEntries cfg format files))))
             (emit (MkdirpSync (resolvePath cfg [DIR_PATH cfg, format])) w))"
  using assms by (simp add: buildPathMapping_def try_catch_def perform_def)

lemma pathMappingEntries_spec:
  assumes "list_all ordinaryRelPath rs"
  shows "pathMappingEntries cfg format (map ((@) (SOURCE_PATH cfg)) rs) =
     map (\<lambda>r. \<lparr>entry_key = spec_moduleName cfg (SOURCE_PATH cfg @ r),
                entry_value = spec_location cfg format r\<rparr>) rs"
proof -
  have "pathMappingEntry cfg format (SOURCE_PATH cfg @ r) =
      \<lparr>entry_key = spec_moduleName cfg (SOURCE_PATH cfg @ r),
       entry_value = spec_location cfg format r\<rparr>" if "r \<in> set rs" for r
  proof -
    from assms that have o: "ordinaryRelPath r" by (simp add: list_all_iff)
    have k: "createModuleName cfg (createPathName cfg (SOURCE_PATH cfg @ r)) =
        spec_moduleName cfg (SOURCE_PATH cfg @ r)"
      by (rule moduleName_agrees_with_spec [OF o])
    have v: "createPathName cfg (SOURCE_PATH cfg @ r) = spec_derivedName r"
      by (rule createPathName_agrees_with_spec [OF o])
    show ?thesis
      by (simp only: pathMappingEntry_def Let_def k) (simp add: v spec_location_def)
  qed
  then show ?thesis by (simp add: pathMappingEntries_def)
qed

lemma safeLiteral_append [simp]: "safeLiteral (a @ b) \<longleftrightarrow> safeLiteral a \<and> safeLiteral b"
  by (simp add: safeLiteral_def)

lemma safeLiteral_Nil [simp]: "safeLiteral []"
  by (simp add: safeLiteral_def)

lemma safeLiteral_Cons [simp]:
  "safeLiteral (c # s) \<longleftrightarrow>
     c \<noteq> CHR 0x27 \<and> c \<noteq> CHR 0x5C \<and> c \<noteq> CHR 0x0A \<and> c \<noteq> CHR 0x0D \<and> safeLiteral s"
  by (simp add: safeLiteral_def)

lemma safe_entry:
  assumes o: "ordinaryRelPath r" and "safeLiteral r" and "safeLiteral (pkg_name cfg)"
    and "safeLiteral (DEV_PATH cfg)" and "safeLiteral format"
  shows "safeLiteral (spec_moduleName cfg (SOURCE_PATH cfg @ r)) \<and>
         safeLiteral (spec_location cfg format r)"
proof -
  from derived_name_shape [OF o, of cfg] obtain n rest where r: "r = n @ rest"
    and name: "createPathName cfg (SOURCE_PATH cfg @ r) = (if n = [] then ''/'' else n)"
    and m: "createModuleName cfg (createPathName cfg (SOURCE_PATH cfg @ r)) = pkg_name cfg @ n"
    by blast
  from assms(2) r have n: "safeLiteral n" by simp
  from m have "spec_moduleName cfg (SOURCE_PATH cfg @ r) = pkg_name cfg @ n"
    by (simp add: moduleName_agrees_with_spec [OF o])
  moreover from name have "spec_derivedName r = (if n = [] then ''/'' else n)"
    by (simp add: createPathName_agrees_with_spec [OF o])
  ultimately show ?thesis using n assms(3-5) by (simp add: spec_location_def)
qed

lemma foldl_update_other:
  "k \<notin> f ` set es \<Longrightarrow> foldl (\<lambda>m e. m(f e \<mapsto> g e)) m0 es k = m0 k"
  by (induction es arbitrary: m0) auto

lemma foldl_update_dom:
  "dom (foldl (\<lambda>m e. m(f e \<mapsto> g e)) m0 es) = dom m0 \<union> f ` set es"
  by (induction es arbitrary: m0) auto

lemma foldl_update_lookup:
  "distinct (map f es) \<Longrightarrow> e \<in> set es \<Longrightarrow>
   foldl (\<lambda>m e. m(f e \<mapsto> g e)) m0 es (f e) = Some (g e)"
proof (induction es arbitrary: m0)
  case Nil
  then show ?case by simp
next
  case (Cons a es)
  show ?case
  proof (cases "e = a")
    case True
    with Cons.prems have nin: "f a \<notin> f ` set es" by simp
    have "foldl (\<lambda>m e. m(f e \<mapsto> g e)) m0 (a # es) (f a) =
          foldl (\<lambda>m e. m(f e \<mapsto> g e)) (m0(f a \<mapsto> g a)) es (f a)"
      by (simp only: foldl_Cons)
    also have "\<dots> = (m0(f a \<mapsto> g a)) (f a)"
      by (rule foldl_update_other [OF nin])
    also have "\<dots> = Some (g a)" by simp
    finally show ?thesis unfolding True .
  next
    case False
    with Cons.prems have "distinct (map f es)" and "e \<in> set es" by simp_all
    with Cons.IH show ?thesis by simp
  qed
qed

text \<open>
  C6, as stated: for every list of eligible files the manifest has exactly one entry
  per file, whose key is the module name of the file. For \<^verbatim>\<open>a.js\<close> beside
  \<^verbatim>\<open>a/index.js\<close>, both eligible, the two lines of the manifest have the same key,
  and the object the manifest returns has one entry for the two files.
\<close>

theorem manifest_duplicate_key:
  "takeFiles \<lparr>path = ''/proj/src/a.js''\<rparr> \<and>
   takeFiles \<lparr>path = ''/proj/src/a/index.js''\<rparr> \<and>
   length [''/proj/src/a.js'', ''/proj/src/a/index.js''] = 2 \<and>
   map entry_key (pathMappingEntries example_config ''cjs''
                    [''/proj/src/a.js'', ''/proj/src/a/index.js'']) = [''lib/a'', ''lib/a''] \<and>
   manifestObject (pathMappingEntries example_config ''cjs''
                     [''/proj/src/a.js'', ''/proj/src/a/index.js'']) =
     Some [''lib/a'' \<mapsto> ''lib/cjs/a''] \<and>
   card (dom [''lib/a'' \<mapsto> ''lib/cjs/a'']) = 1"
proof -
  have a: "createPathName example_config ''/proj/src/a.js'' = ''/a''"
    by (simp add: createPathName_def removeSourcePath_def example_SOURCE_PATH endsWith_def)
  have b: "createPathName example_config ''/proj/src/a/index.js'' = ''/a''"
    by (simp add: createPathName_def removeSourcePath_def example_SOURCE_PATH endsWith_def
        dirname_def)
  have n: "createModuleName example_config ''/a'' = ''lib/a''"
    by (simp add: createModuleName_def tail_def example_simps)
  have mode: "\<not> isDevelopment example_config" "pkg_name example_config = ''lib''"
    by (simp_all add: example_simps)
  have e: "pathMappingEntries example_config ''cjs'' [''/proj/src/a.js'', ''/proj/src/a/index.js'']
      = [\<lparr>entry_key = ''lib/a'', entry_value = ''lib/cjs/a''\<rparr>,
         \<lparr>entry_key = ''lib/a'', entry_value = ''lib/cjs/a''\<rparr>]"
    by (simp add: pathMappingEntries_def pathMappingEntry_def Let_def a b n mode)
  have "takeFiles \<lparr>path = ''/proj/src/a.js''\<rparr>"
    by (simp add: eligibility_simps)
  moreover have "takeFiles \<lparr>path = ''/proj/src/a/index.js''\<rparr>"
    by (simp add: eligibility_simps)
  moreover have "manifestObject [\<lparr>entry_key = ''lib/a'', entry_value = ''lib/cjs/a''\<rparr>,
         \<lparr>entry_key = ''lib/a'', entry_value = ''lib/cjs/a''\<rparr>] = Some [''lib/a'' \<mapsto> ''lib/cjs/a'']"
    by (simp add: manifestObject_def safeLiteral_def)
  ultimately show ?thesis by (simp add: e)
qed

text \<open>
  C6, amended: for every format and every list of files with ordinary paths under the
  source root, the text written to \<^verbatim>\<open>path-mapping.js\<close> is the template around exactly
  one line per file, in the order of the files; the line of a file has its module name
  as the quoted key and, as the quoted value, the development directory (in
  development mode) or the package name (otherwise), a separator, the format and the
  derived name. When the module names of the files are distinct and neither the
  package name, the development directory, the format nor a path has a quote, a
  backslash or a line break, the object the manifest returns has exactly one entry per
  file and gives for the module name of each file its value.
\<close>

theorem buildPathMapping_manifest:
  assumes "list_all ordinaryRelPath rs"
  shows "pathMappingTemplate (pathMappingEntries cfg format (map ((@) (SOURCE_PATH cfg)) rs)) =
       [CHR 0x0A, CHR 0x22] @ ''use strict'' @ [CHR 0x22, CHR 0x0A, CHR 0x0A] @
       ''module.exports = function() {'' @ [CHR 0x0A] @
       ''  return {'' @ [CHR 0x0A] @
       join [CHR 0x0A]
         (map (\<lambda>r. ''    '' @ [CHR 0x27] @ spec_moduleName cfg (SOURCE_PATH cfg @ r) @ [CHR 0x27] @
                    '': '' @ [CHR 0x27] @ spec_location cfg format r @ [CHR 0x27] @ '','') rs) @
       [CHR 0x0A] @ ''  }'' @ [CHR 0x0A] @ ''}'' @ [CHR 0x0A] @ ''  '' \<and>
     length (map (\<lambda>r. ''    '' @ [CHR 0x27] @ spec_moduleName cfg (SOURCE_PATH cfg @ r) @ [CHR 0x27] @
                    '': '' @ [CHR 0x27] @ spec_location cfg format r @ [CHR 0x27] @ '','') rs) =
       length rs \<and>
     (throws w (MkdirpSync (resolvePath cfg [DIR_PATH cfg, format])) = None \<and>
      throws w (WriteFileSync (resolvePath cfg [DIR_PATH cfg, format, ''path-mapping.js''])
        (Source (pathMappingTemplate
           (pathMappingEntries cfg format (map ((@) (SOURCE_PATH cfg)) rs))))) = None \<longrightarrow>
      buildPathMapping cfg format (map ((@) (SOURCE_PATH cfg)) rs) w =
        Done (emit (WriteFileSync (resolvePath cfg [DIR_PATH cfg, format, ''path-mapping.js''])
                      (Source (pathMappingTemplate
                         (pathMappingEntries cfg format (map ((@) (SOURCE_PATH cfg)) rs)))))
                (emit (MkdirpSync (resolvePath cfg [DIR_PATH cfg, format])) w))) \<and>
     (distinct (map (\<lambda>r. spec_moduleName cfg (SOURCE_PATH cfg @ r)) rs) \<and>
      safeLiteral (pkg_name cfg) \<and> safeLiteral (DEV_PATH cfg) \<and> safeLiteral format \<and>
      list_all safeLiteral rs \<longrightarrow>
      (\<exists>m. manifestObject (pathMappingEntries cfg format (map ((@) (SOURCE_PATH cfg)) rs)) = Some m \<and>
           card (dom m) = length rs \<and>
           (\<forall>r \<in> set rs. m (spec_moduleName cfg (SOURCE_PATH cfg @ r)) =
                            Some (spec_location cfg format r))))"
proof (intro conjI impI)
  let ?files = "map ((@) (SOURCE_PATH cfg)) rs"
  let ?key = "\<lambda>r. spec_moduleName cfg (SOURCE_PATH cfg @ r)"
  let ?entry = "\<lambda>r. \<lparr>entry_key = ?key r, entry_value = spec_location cfg format r\<rparr>"
  note entries = pathMappingEntries_spec [OF assms, of cfg format]
  show "pathMappingTemplate (pathMappingEntries cfg format ?files) =
       [CHR 0x0A, CHR 0x22] @ ''use strict'' @ [CHR 0x22, CHR 0x0A, CHR 0x0A] @
       ''module.exports = function() {'' @ [CHR 0x0A] @
       ''  return {'' @ [CHR 0x0A] @
       join [CHR 0x0A]
         (map (\<lambda>r. ''    '' @ [CHR 0x27] @ spec_moduleName cfg (SOURCE_PATH cfg @ r) @ [CHR 0x27] @
                    '': '' @ [CHR 0x27] @ spec_location cfg format r @ [CHR 0x27] @ '','') rs) @
       [CHR 0x0A] @ ''  }'' @ [CHR 0x0A] @ ''}'' @ [CHR 0x0A] @ ''  ''"
    by (simp add: entries pathMappingTemplate_def toStringObject_def indentLine_def
        toStringKeyValue_def comp_def)
  show "length (map (\<lambda>r. ''    '' @ [CHR 0x27] @ spec_moduleName cfg (SOURCE_PATH cfg @ r) @ [CHR 0x27] @
                    '': '' @ [CHR 0x27] @ spec_location cfg format r @ [CHR 0x27] @ '','') rs) =
       length rs"
    by simp
  {
    assume "throws w (MkdirpSync (resolvePath cfg [DIR_PATH cfg, format])) = None \<and>
      throws w (WriteFileSync (resolvePath cfg [DIR_PATH cfg, format, ''path-mapping.js''])
        (Source (pathMappingTemplate (pathMappingEntries cfg format ?files)))) = None"
    then show "buildPathMapping cfg format ?files w =
        Done (emit (WriteFileSync (resolvePath cfg [DIR_PATH cfg, format, ''path-mapping.js''])
                      (Source (pathMappingTemplate (pathMappingEntries cfg format ?files))))
                (emit (MkdirpSync (resolvePath cfg [DIR_PATH cfg, format])) w))"
      using buildPathMapping_quiet by blast
  }
  {
    assume a: "distinct (map ?key rs) \<and>
      safeLiteral (pkg_name cfg) \<and> safeLiteral (DEV_PATH cfg) \<and> safeLiteral format \<and>
      list_all safeLiteral rs"
    let ?m = "foldl (\<lambda>m e. m(entry_key e \<mapsto> entry_value e)) Map.empty (map ?entry rs)"
    have safe: "safeLiteral (?key r) \<and> safeLiteral (spec_location cfg format r)"
      if "r \<in> set rs" for r
    proof -
      from assms that have "ordinaryRelPath r" by (simp add: list_all_iff)
      moreover from a that have "safeLiteral r" by (simp add: list_all_iff)
      ultimately show ?thesis using a safe_entry by blast
    qed
    then have obj: "manifestObject (pathMappingEntries cfg format ?files) = Some ?m"
      by (simp add: entries manifestObject_def list_all_iff)
    from a have d: "distinct (map entry_key (map ?entry rs))"
      by (simp add: comp_def)
    have "dom ?m = dom (Map.empty :: string \<rightharpoonup> string) \<union> entry_key ` set (map ?entry rs)"
      by (rule foldl_update_dom)
    then have "dom ?m = set (map ?key rs)"
      by (simp add: image_image)
    moreover from a have "card (set (map ?key rs)) = length (map ?key rs)"
      by (intro distinct_card) simp
    ultimately have card: "card (dom ?m) = length rs"
      by simp
    have look: "?m (?key r) = Some (spec_location cfg format r)" if "r \<in> set rs" for r
    proof -
      from that have "?entry r \<in> set (map ?entry rs)" by simp
      from foldl_update_lookup [OF d this, of entry_value Map.empty] show ?thesis by simp
    qed
    from obj card look
    show "\<exists>m. manifestObject (pathMappingEntries cfg format ?files) = Some m \<and>
           card (dom m) = length rs \<and>
           (\<forall>r \<in> set rs. m (?key r) = Some (spec_location cfg format r))"
      by blast
  }
qed

lemma example_createPathName_bar:
  "createPathName example_config ''/proj/src/Foo/bar.js'' = ''/Foo/bar''"
  by (simp add: createPathName_def removeSourcePath_def example_SOURCE_PATH endsWith_def)

theorem buildPathMapping_manifest_witness:
  "list_all ordinaryRelPath [''/index.js'', ''/Foo/bar.js''] \<and>
   distinct (map (\<lambda>r. spec_moduleName example_config (SOURCE_PATH example_config @ r))
               [''/index.js'', ''/Foo/bar.js'']) \<and>
   safeLiteral (pkg_name example_config) \<and> safeLiteral (DEV_PATH example_config) \<and>
   safeLiteral ''cjs'' \<and> list_all safeLiteral [''/index.js'', ''/Foo/bar.js''] \<and>
   pathMappingTemplate (pathMappingEntries example_config ''cjs''
       [''/proj/src/index.js'', ''/proj/src/Foo/bar.js'']) =
     [CHR 0x0A, CHR 0x22] @ ''use strict'' @ [CHR 0x22, CHR 0x0A, CHR 0x0A] @
     ''module.exports = function() {'' @ [CHR 0x0A] @
     ''  return {'' @ [CHR 0x0A] @
     ''    '' @ [CHR 0x27] @ ''lib'' @ [CHR 0x27] @ '': '' @ [CHR 0x27] @ ''lib/cjs/'' @
       [CHR 0x27] @ '','' @ [CHR 0x0A] @
     ''    '' @ [CHR 0x27] @ ''lib/Foo/bar'' @ [CHR 0x27] @ '': '' @ [CHR 0x27] @
       ''lib/cjs/Foo/bar'' @ [CHR 0x27] @ '','' @ [CHR 0x0A] @
     ''  }'' @ [CHR 0x0A] @ ''}'' @ [CHR 0x0A] @ ''  '' \<and>
   trace_of (buildPathMapping example_config ''cjs''
       [''/proj/src/index.js'', ''/proj/src/Foo/bar.js''] quiet_world) =
     [MkdirpSync ''/proj/dist/cjs'',
      WriteFileSync ''/proj/dist/cjs/path-mapping.js''
        (Source (pathMappingTemplate (pathMappingEntries example_config ''cjs''
           [''/proj/src/index.js'', ''/proj/src/Foo/bar.js''])))] \<and>
   (\<exists>m. manifestObject (pathMappingEntries example_config ''cjs''
              [''/proj/src/index.js'', ''/proj/src/Foo/bar.js'']) = Some m \<and>
        card (dom m) = 2 \<and>
        m ''lib'' = Some ''lib/cjs/'' \<and>
        m ''lib/Foo/bar'' = Some ''lib/cjs/Foo/bar'')"
proof -
  let ?rs = "[''/index.js'', ''/Foo/bar.js'']"
  let ?files = "[''/proj/src/index.js'', ''/proj/src/Foo/bar.js'']"
  have mode: "\<not> isDevelopment example_config" "pkg_name example_config = ''lib''"
    by (simp_all add: example_simps)
  have dev: "DEV_PATH example_config = ''/proj/dev''"
    by (simp add: DEV_PATH_def resolvePath_def resolveSegment_def example_simps)
  have files: "map ((@) (SOURCE_PATH example_config)) ?rs = ?files"
    by (simp add: example_SOURCE_PATH)
  have d1: "spec_derivedName ''/index.js'' = ''/''"
    by (simp add: spec_derivedName_def endsWith_def dirname_def)
  have d2: "spec_derivedName ''/Foo/bar.js'' = ''/Foo/bar''"
    by (simp add: spec_derivedName_def spec_removeExtension_def endsWith_def)
  have k1: "spec_moduleName example_config (SOURCE_PATH example_config @ ''/index.js'') = ''lib''"
    by (simp add: spec_moduleName_relative d1 mode)
  have k2: "spec_moduleName example_config (SOURCE_PATH example_config @ ''/Foo/bar.js'') =
      ''lib/Foo/bar''"
    by (simp add: spec_moduleName_relative d2 mode)
  have l1: "spec_location example_config ''cjs'' ''/index.js'' = ''lib/cjs/''"
    by (simp add: spec_location_def d1 mode)
  have l2: "spec_location example_config ''cjs'' ''/Foo/bar.js'' = ''lib/cjs/Foo/bar''"
    by (simp add: spec_location_def d2 mode)
  have o: "list_all ordinaryRelPath ?rs"
    by (simp add: ordinaryRelPath_def isDirectoryIndex_def endsWith_def)
  have dist: "distinct (map (\<lambda>r. spec_moduleName example_config (SOURCE_PATH example_config @ r)) ?rs)"
    by (simp add: k1 k2)
  have safe: "safeLiteral (pkg_name example_config)" "safeLiteral (DEV_PATH example_config)"
    "safeLiteral ''cjs''" "list_all safeLiteral ?rs"
    by (simp_all add: mode dev)
  have quiet: "throws quiet_world ev = None" for ev
    by (simp add: quiet_world_def)
  have dir: "resolvePath example_config [DIR_PATH example_config, ''cjs''] = ''/proj/dist/cjs''"
    by (simp add: resolvePath_def resolveSegment_def DIR_PATH_def DIST_PATH_def example_simps)
  have mfile: "resolvePath example_config [DIR_PATH example_config, ''cjs'', ''path-mapping.js'']
      = ''/proj/dist/cjs/path-mapping.js''"
    by (simp add: resolvePath_def resolveSegment_def DIR_PATH_def DIST_PATH_def example_simps)
  note inst = buildPathMapping_manifest [OF o, of example_config "''cjs''" quiet_world,
      unfolded files]
  from inst have content: "pathMappingTemplate (pathMappingEntries example_config ''cjs'' ?files) =
     [CHR 0x0A, CHR 0x22] @ ''use strict'' @ [CHR 0x22, CHR 0x0A, CHR 0x0A] @
     ''module.exports = function() {'' @ [CHR 0x0A] @
     ''  return {'' @ [CHR 0x0A] @
     ''    '' @ [CHR 0x27] @ ''lib'' @ [CHR 0x27] @ '': '' @ [CHR 0x27] @ ''lib/cjs/'' @
       [CHR 0x27] @ '','' @ [CHR 0x0A] @
     ''    '' @ [CHR 0x27] @ ''lib/Foo/bar'' @ [CHR 0x27] @ '': '' @ [CHR 0x27] @
       ''lib/cjs/Foo/bar'' @ [CHR 0x27] @ '','' @ [CHR 0x0A] @
     ''  }'' @ [CHR 0x0A] @ ''}'' @ [CHR 0x0A] @ ''  ''"
    by (simp add: k1 k2 l1 l2)
  from inst quiet have "buildPathMapping example_config ''cjs'' ?files quiet_world =
      Done (emit (WriteFileSync ''/proj/dist/cjs/path-mapping.js''
                    (Source (pathMappingTemplate (pathMappingEntries example_config ''cjs'' ?files))))
              (emit (MkdirpSync ''/proj/dist/cjs'') quiet_world))"
    by (simp add: dir mfile)
  then have run: "trace_of (buildPathMapping example_config ''cjs'' ?files quiet_world) =
     [MkdirpSync ''/proj/dist/cjs'',
      WriteFileSync ''/proj/dist/cjs/path-mapping.js''
        (Source (pathMappingTemplate (pathMappingEntries example_config ''cjs'' ?files)))]"
    by (simp add: trace_of_def quiet_world_def)
  from inst dist safe have "\<exists>m. manifestObject (pathMappingEntries example_config ''cjs''
        ?files) = Some m \<and>
      card (dom m) = length ?rs \<and>
      (\<forall>r \<in> set ?rs. m (spec_moduleName example_config (SOURCE_PATH example_config @ r)) =
                       Some (spec_location example_config ''cjs'' r))"
    by blast
  then have obj: "\<exists>m. manifestObject (pathMappingEntries example_config ''cjs'' ?files) = Some m \<and>
        card (dom m) = 2 \<and>
        m ''lib'' = Some ''lib/cjs/'' \<and>
        m ''lib/Foo/bar'' = Some ''lib/cjs/Foo/bar''"
    by (simp add: k1 k2 l1 l2 numeral_2_eq_2)
  from o dist safe content run obj show ?thesis by (simp only: simp_thms)
qed

text \<open>
  C9. The two manifests made from one list of files have the same keys in the same
  order, and the values of corresponding entries differ in the format only.
\<close>

theorem manifests_same_keys:
  "map entry_key (pathMappingEntries cfg CJS_MODULES files) =
   map entry_key (pathMappingEntries cfg ESM_MODULES files) \<and>
   list_all2 (\<lambda>c e. \<exists>pre post. entry_value c = pre @ ''cjs'' @ post \<and>
                                entry_value e = pre @ ''esm'' @ post)
     (pathMappingEntries cfg CJS_MODULES files) (pathMappingEntries cfg ESM_MODULES files)"
proof
  show "map entry_key (pathMappingEntries cfg CJS_MODULES files) =
        map entry_key (pathMappingEntries cfg ESM_MODULES files)"
    by (simp add: pathMappingEntries_def pathMappingEntry_key)
  have "\<exists>pre post. entry_value (pathMappingEntry cfg CJS_MODULES f) = pre @ ''cjs'' @ post \<and>
                   entry_value (pathMappingEntry cfg ESM_MODULES f) = pre @ ''esm'' @ post" for f
    by (intro exI [of _ "(if isDevelopment cfg then DEV_PATH cfg else pkg_name cfg) @ ''/''"]
        exI [of _ "createPathName cfg f"])
      (simp add: pathMappingEntry_value CJS_MODULES_def ESM_MODULES_def)
  then show "list_all2 (\<lambda>c e. \<exists>pre post. entry_value c = pre @ ''cjs'' @ post \<and>
                                entry_value e = pre @ ''esm'' @ post)
     (pathMappingEntries cfg CJS_MODULES files) (pathMappingEntries cfg ESM_MODULES files)"
    by (simp add: pathMappingEntries_def list_all2_map1 list_all2_map2 list_all2_same)
qed

theorem manifests_same_keys_witness:
  "map entry_key (pathMappingEntries example_config CJS_MODULES [''/proj/src/Foo/bar.js'']) =
     [''lib/Foo/bar''] \<and>
   map entry_key (pathMappingEntries example_config ESM_MODULES [''/proj/src/Foo/bar.js'']) =
     [''lib/Foo/bar''] \<and>
   map entry_value (pathMappingEntries example_config CJS_MODULES [''/proj/src/Foo/bar.js'']) =
     [''lib/cjs/Foo/bar''] \<and>
   map entry_value (pathMappingEntries example_config ESM_MODULES [''/proj/src/Foo/bar.js'']) =
     [''lib/esm/Foo/bar'']"
proof -
  have mode: "\<not> isDevelopment example_config" "pkg_name example_config = ''lib''"
    by (simp_all add: example_simps)
  have name: "createModuleName example_config ''/Foo/bar'' = ''lib/Foo/bar''"
    by (simp add: createModuleName_def tail_def example_simps)
  then have "map entry_key (pathMappingEntries example_config CJS_MODULES [''/proj/src/Foo/bar.js''])
      = [''lib/Foo/bar'']"
    by (simp add: pathMappingEntries_def pathMappingEntry_key example_createPathName_bar)
  moreover from this manifests_same_keys [of example_config "[''/proj/src/Foo/bar.js'']"]
  have "map entry_key (pathMappingEntries example_config ESM_MODULES [''/proj/src/Foo/bar.js''])
      = [''lib/Foo/bar'']"
    by simp
  moreover have "map entry_value (pathMappingEntries example_config CJS_MODULES [''/proj/src/Foo/bar.js''])
      = [''lib/cjs/Foo/bar'']"
    by (simp add: pathMappingEntries_def pathMappingEntry_value example_createPathName_bar
        CJS_MODULES_def mode)
  moreover have "map entry_value (pathMappingEntries example_config ESM_MODULES [''/proj/src/Foo/bar.js''])
      = [''lib/esm/Foo/bar'']"
    by (simp add: pathMappingEntries_def pathMappingEntry_value example_createPathName_bar
        ESM_MODULES_def mode)
  ultimately show ?thesis by simp
qed

section \<open>Facts about the pipelines\<close>

lemma buildPathMapping_mkdir_throws:
  assumes "throws w (MkdirpSync (resolvePath cfg [DIR_PATH cfg, format])) = Some err"
  shows "buildPathMapping cfg format files w = Done (emit (ConsoleError err) w)"
  using assms by (simp add: buildPathMapping_def try_catch_def perform_def)

lemma buildPathMapping_write_throws:
  assumes "throws w (MkdirpSync (resolvePath cfg [DIR_PATH cfg, format])) = None"
    and "throws w (WriteFileSync (resolvePath cfg [DIR_PATH cfg, format, ''path-mapping.js''])
           (Source (pathMappingTemplate (pathMappingEntries cfg format files)))) = Some err"
  shows "buildPathMapping cfg format files w =
     Done (emit (ConsoleError err) (emit (MkdirpSync (resolvePath cfg [DIR_PATH cfg, format])) w))"
  using assms by (simp add: buildPathMapping_def try_catch_def perform_def)

lemma buildPathMapping_finished: "finished (buildPathMapping cfg format files w)"
proof (cases "throws w (MkdirpSync (resolvePath cfg [DIR_PATH cfg, format]))")
  case (Some err)
  then show ?thesis by (simp add: buildPathMapping_mkdir_throws)
next
  case None
  show ?thesis
  proof (cases "throws w (WriteFileSync (resolvePath cfg [DIR_PATH cfg, format, ''path-mapping.js''])
           (Source (pathMappingTemplate (pathMappingEntries cfg format files))))")
    case (Some err)
    with None show ?thesis by (simp add: buildPathMapping_write_throws)
  next
    case None': None
    with None show ?thesis by (simp add: buildPathMapping_quiet)
  qed
qed

lemma run_last: "(case r of Threw err w \<Rightarrow> Threw err w | Done w \<Rightarrow> run [] w) = r"
  by (cases r) simp_all

lemma run_after_finished: "finished (s w) \<Longrightarrow> run (s # rest) w = run rest (world_of (s w))"
  by (cases "s w") simp_all

lemma production_quiet:
  assumes prod: "\<not> isDevelopment cfg" and quiet: "\<forall>ev. throws w ev = None"
  shows "production cfg modules w =
     Done (w\<lparr>trace := trace w @
       [RimrafSync (DIST_PATH cfg),
        MkdirpSync (resolvePath cfg [DIST_PATH cfg]),
        WriteFileSync (resolvePath cfg [DIST_PATH cfg, ''package.json'']) (prepareJson (pkg cfg)),
        CopySync (resolvePath cfg [''LICENSE'']) (resolvePath cfg [DIST_PATH cfg, ''LICENSE'']),
        CopySync (resolvePath cfg [''README.md'']) (resolvePath cfg [DIST_PATH cfg, ''README.md'']),
        CopySync (resolvePath cfg [''yarn.lock'']) (resolvePath cfg [DIST_PATH cfg, ''yarn.lock'']),
        CopySync (resolvePath cfg [''docs'']) (resolvePath cfg [DIST_PATH cfg, ''docs'']),
        CopySync (resolvePath cfg [''src'']) (resolvePath cfg [DIST_PATH cfg, ''src'']),
        CopySync (resolvePath cfg [''native'']) (resolvePath cfg [DIST_PATH cfg, ''native'']),
        MkdirpSync (resolvePath cfg [DIST_PATH cfg, CJS_MODULES]),
        WriteFileSync (resolvePath cfg [DIST_PATH cfg, CJS_MODULES, ''path-mapping.js''])
          (Source (pathMappingTemplate (pathMappingEntries cfg CJS_MODULES modules))),
        MkdirpSync (resolvePath cfg [DIST_PATH cfg, ESM_MODULES]),
        WriteFileSync (resolvePath cfg [DIST_PATH cfg, ESM_MODULES, ''path-mapping.js''])
          (Source (pathMappingTemplate (pathMappingEntries cfg ESM_MODULES modules))),
        MapAsyncBuildModule ESM_MODULES modules,
        MapAsyncBuildModule CJS_MODULES modules]\<rparr>)"
proof -
  have q: "throws w ev = None" for ev using quiet by simp
  from prod have dir: "DIR_PATH cfg = DIST_PATH cfg" by (simp add: DIR_PATH_def)
  show ?thesis
    by (simp add: production_def cleanFolder_def createFolder_def createPackageJson_def
        copyFiles_def buildCjsPathMapping_def buildEsmPathMapping_def prod_buildModules_def
        buildPathMapping_def try_catch_def perform_def emit_def q dir)
qed


lemma example_modules:
  "takeModules example_tree =
     [''/proj/src/index.js'', ''/proj/src/Foo/index.js'', ''/proj/src/Foo/bar.js'']"
  by (simp add: takeModules_def example_tree_def eligibility_simps)

lemma example_paths:
  "DIST_PATH example_config = ''/proj/dist''"
  "resolvePath example_config [''/proj/dist''] = ''/proj/dist''"
  "resolvePath example_config [''/proj/dist'', ''package.json''] = ''/proj/dist/package.json''"
  "resolvePath example_config [''/proj/dist'', ''cjs''] = ''/proj/dist/cjs''"
  "resolvePath example_config [''/proj/dist'', ''esm''] = ''/proj/dist/esm''"
  "resolvePath example_config [''/proj/dist'', ''cjs'', ''path-mapping.js''] =
     ''/proj/dist/cjs/path-mapping.js''"
  "resolvePath example_config [''/proj/dist'', ''esm'', ''path-mapping.js''] =
     ''/proj/dist/esm/path-mapping.js''"
  by (simp_all add: DIST_PATH_def resolvePath_def resolveSegment_def example_simps)

lemma example_mode: "\<not> isDevelopment example_config" "pkg_name example_config = ''lib''"
  by (simp_all add: example_simps)

lemma quiet_world_quiet: "\<forall>ev. throws quiet_world ev = None"
  by (simp add: quiet_world_def)

lemma example_resolve:
  assumes "f \<noteq> [] \<and> hd f \<noteq> CHR ''/''"
  shows "resolvePath example_config [f] = ''/proj/'' @ f"
    and "resolvePath example_config [''/proj/dist'', f] = ''/proj/dist/'' @ f"
  using assms by (auto simp: resolvePath_def resolveSegment_def example_simps)

lemma example_make:
  "make example_config example_tree quiet_world =
   Done (quiet_world\<lparr>trace :=
     [Klaw ''/proj/src'',
      RimrafSync ''/proj/dist'',
      MkdirpSync ''/proj/dist'',
      WriteFileSync ''/proj/dist/package.json'' (prepareJson example_pkg),
      CopySync ''/proj/LICENSE'' ''/proj/dist/LICENSE'',
      CopySync ''/proj/README.md'' ''/proj/dist/README.md'',
      CopySync ''/proj/yarn.lock'' ''/proj/dist/yarn.lock'',
      CopySync ''/proj/docs'' ''/proj/dist/docs'',
      CopySync ''/proj/src'' ''/proj/dist/src'',
      CopySync ''/proj/native'' ''/proj/dist/native'',
      MkdirpSync ''/proj/dist/cjs'',
      WriteFileSync ''/proj/dist/cjs/path-mapping.js''
        (Source (pathMappingTemplate (pathMappingEntries example_config ''cjs''
           [''/proj/src/index.js'', ''/proj/src/Foo/index.js'', ''/proj/src/Foo/bar.js'']))),
      MkdirpSync ''/proj/dist/esm'',
      WriteFileSync ''/proj/dist/esm/path-mapping.js''
        (Source (pathMappingTemplate (pathMappingEntries example_config ''esm''
           [''/proj/src/index.js'', ''/proj/src/Foo/index.js'', ''/proj/src/Foo/bar.js'']))),
      MapAsyncBuildModule ''esm''
        [''/proj/src/index.js'', ''/proj/src/Foo/index.js'', ''/proj/src/Foo/bar.js''],
      MapAsyncBuildModule ''cjs''
        [''/proj/src/index.js'', ''/proj/src/Foo/index.js'', ''/proj/src/Foo/bar.js'']]\<rparr>)"
proof -
  let ?w1 = "emit (Klaw (SOURCE_PATH example_config)) quiet_world"
  have "throws quiet_world (Klaw (SOURCE_PATH example_config)) = None"
    by (simp add: quiet_world_def)
  then have step: "make example_config example_tree quiet_world =
      production example_config (takeModules example_tree) ?w1"
    by (simp add: make_def perform_def example_mode run_last)
  have q1: "\<forall>ev. throws ?w1 ev = None"
    by (simp add: quiet_world_def)
  have "pkg example_config = example_pkg" by (simp add: example_config_def)
  with production_quiet [OF example_mode(1) q1, of "takeModules example_tree"] step
  show ?thesis
    by (simp add: example_modules example_SOURCE_PATH example_paths example_resolve
        CJS_MODULES_def ESM_MODULES_def emit_def quiet_world_def)
qed

text \<open>
  C3, as stated: the production pipeline cleans the output directory, makes it,
  discovers the files, writes both manifests, then the package descriptor, then copies
  the static assets, then compiles. In the run of the script on the example tree the
  tree walk comes before the cleaning, and the package descriptor and the copies come
  before the manifests.
\<close>

theorem production_order_counterexample:
  "finished (make example_config example_tree quiet_world) \<and>
   \<not> precedes (\<lambda>e. e = RimrafSync ''/proj/dist'') (\<lambda>e. e = Klaw ''/proj/src'')
       (trace_of (make example_config example_tree quiet_world)) \<and>
   precedes (\<lambda>e. e = Klaw ''/proj/src'') (\<lambda>e. e = RimrafSync ''/proj/dist'')
       (trace_of (make example_config example_tree quiet_world)) \<and>
   \<not> precedes (writesTo ''/proj/dist/cjs/path-mapping.js'') (writesTo ''/proj/dist/package.json'')
       (trace_of (make example_config example_tree quiet_world)) \<and>
   \<not> precedes (writesTo ''/proj/dist/esm/path-mapping.js'') (writesTo ''/proj/dist/package.json'')
       (trace_of (make example_config example_tree quiet_world)) \<and>
   precedes (writesTo ''/proj/dist/package.json'') (writesTo ''/proj/dist/cjs/path-mapping.js'')
       (trace_of (make example_config example_tree quiet_world)) \<and>
   precedes (\<lambda>e. e = CopySync ''/proj/native'' ''/proj/dist/native'')
       (writesTo ''/proj/dist/cjs/path-mapping.js'')
       (trace_of (make example_config example_tree quiet_world))"
  by (simp add: example_make trace_of_def)

text \<open>
  C3, amended: in production mode, when no call throws, the script walks the source
  tree, cleans the output directory, makes it, writes the package descriptor, copies
  the six static assets, writes the CommonJS manifest, writes the ES-module manifest,
  starts the ES-module batch and, as its next call, starts the CommonJS batch.
\<close>

theorem production_order:
  assumes "\<not> isDevelopment cfg" and "\<forall>ev. throws w ev = None"
  shows "finished (make cfg tree w) \<and>
     trace_of (make cfg tree w) = trace w @
       [Klaw (SOURCE_PATH cfg),
        RimrafSync (DIST_PATH cfg),
        MkdirpSync (resolvePath cfg [DIST_PATH cfg]),
        WriteFileSync (resolvePath cfg [DIST_PATH cfg, ''package.json'']) (prepareJson (pkg cfg)),
        CopySync (resolvePath cfg [''LICENSE'']) (resolvePath cfg [DIST_PATH cfg, ''LICENSE'']),
        CopySync (resolvePath cfg [''README.md'']) (resolvePath cfg [DIST_PATH cfg, ''README.md'']),
        CopySync (resolvePath cfg [''yarn.lock'']) (resolvePath cfg [DIST_PATH cfg, ''yarn.lock'']),
        CopySync (resolvePath cfg [''docs'']) (resolvePath cfg [DIST_PATH cfg, ''docs'']),
        CopySync (resolvePath cfg [''src'']) (resolvePath cfg [DIST_PATH cfg, ''src'']),
        CopySync (resolvePath cfg [''native'']) (resolvePath cfg [DIST_PATH cfg, ''native'']),
        MkdirpSync (resolvePath cfg [DIST_PATH cfg, CJS_MODULES]),
        WriteFileSync (resolvePath cfg [DIST_PATH cfg, CJS_MODULES, ''path-mapping.js''])
          (Source (pathMappingTemplate (pathMappingEntries cfg CJS_MODULES (takeModules tree)))),
        MkdirpSync (resolvePath cfg [DIST_PATH cfg, ESM_MODULES]),
        WriteFileSync (resolvePath cfg [DIST_PATH cfg, ESM_MODULES, ''path-mapping.js''])
          (Source (pathMappingTemplate (pathMappingEntries cfg ESM_MODULES (takeModules tree)))),
        MapAsyncBuildModule ESM_MODULES (takeModules tree),
        MapAsyncBuildModule CJS_MODULES (takeModules tree)]"
proof -
  let ?w1 = "emit (Klaw (SOURCE_PATH cfg)) w"
  from assms(2) have "throws w (Klaw (SOURCE_PATH cfg)) = None" by simp
  with assms(1) have step: "make cfg tree w = production cfg (takeModules tree) ?w1"
    by (simp add: make_def perform_def run_last)
  from assms(2) have "\<forall>ev. throws ?w1 ev = None" by simp
  from production_quiet [OF assms(1) this, of "takeModules tree"] step
  show ?thesis by (simp add: trace_of_def)
qed

theorem production_order_witness:
  "\<not> isDevelopment example_config \<and> (\<forall>ev. throws quiet_world ev = None) \<and>
   finished (make example_config example_tree quiet_world) \<and>
   trace_of (make example_config example_tree quiet_world) =
     [Klaw ''/proj/src'',
      RimrafSync ''/proj/dist'',
      MkdirpSync ''/proj/dist'',
      WriteFileSync ''/proj/dist/package.json'' (prepareJson example_pkg),
      CopySync ''/proj/LICENSE'' ''/proj/dist/LICENSE'',
      CopySync ''/proj/README.md'' ''/proj/dist/README.md'',
      CopySync ''/proj/yarn.lock'' ''/proj/dist/yarn.lock'',
      CopySync ''/proj/docs'' ''/proj/dist/docs'',
      CopySync ''/proj/src'' ''/proj/dist/src'',
      CopySync ''/proj/native'' ''/proj/dist/native'',
      MkdirpSync ''/proj/dist/cjs'',
      WriteFileSync ''/proj/dist/cjs/path-mapping.js''
        (Source (pathMappingTemplate (pathMappingEntries example_config ''cjs''
           [''/proj/src/index.js'', ''/proj/src/Foo/index.js'', ''/proj/src/Foo/bar.js'']))),
      MkdirpSync ''/proj/dist/esm'',
      WriteFileSync ''/proj/dist/esm/path-mapping.js''
        (Source (pathMappingTemplate (pathMappingEntries example_config ''esm''
           [''/proj/src/index.js'', ''/proj/src/Foo/index.js'', ''/proj/src/Foo/bar.js'']))),
      MapAsyncBuildModule ''esm''
        [''/proj/src/index.js'', ''/proj/src/Foo/index.js'', ''/proj/src/Foo/bar.js''],
      MapAsyncBuildModule ''cjs''
        [''/proj/src/index.js'', ''/proj/src/Foo/index.js'', ''/proj/src/Foo/bar.js'']]"
proof -
  have rest: "resolvePath example_config [f] = ''/proj/'' @ f"
    "resolvePath example_config [''/proj/dist'', f] = ''/proj/dist/'' @ f"
    if "f \<noteq> [] \<and> hd f \<noteq> CHR ''/''" for f
    using that by (auto simp: resolvePath_def resolveSegment_def example_simps)
  have "pkg example_config = example_pkg" by (simp add: example_config_def)
  with production_order [OF example_mode(1) quiet_world_quiet, of example_tree]
  show ?thesis
    by (simp add: example_mode quiet_world_quiet example_modules example_SOURCE_PATH
        example_paths rest CJS_MODULES_def ESM_MODULES_def) (simp add: quiet_world_def)
qed

section \<open>Facts about the watch loop\<close>

lemma onAll_add_change:
  assumes "event = ''add'' \<or> event = ''change''"
  shows "onAll cfg event p w =
     Done (w\<lparr>trace := trace w @
       [ConsoleLog ([CHR 0xE2, CHR 0x9C, CHR 0x93] @ '' '' @ removeSourcePath cfg p),
        BuildModule CJS_MODULES p,
        BuildModule ESM_MODULES p]\<rparr>)"
  using assms by (auto simp: onAll_def dev_buildModules_def buildModule_def emit_def)

lemma onAll_other:
  assumes "event \<noteq> ''add''" "event \<noteq> ''change''"
  shows "onAll cfg event p w = Done w"
  using assms by (simp add: onAll_def)

lemma chokidar_all_keeps_files:
  "finished (chokidar_all cfg e w) \<and>
   filter isFileSystemWrite (trace_of (chokidar_all cfg e w)) = filter isFileSystemWrite (trace w)"
proof (cases "anymatch DO_NOT_BUILD_PATHS (snd e)")
  case True
  then show ?thesis by (simp add: chokidar_all_def trace_of_def)
next
  case False
  show ?thesis
  proof (cases "fst e = ''add'' \<or> fst e = ''change''")
    case True
    with False show ?thesis
      by (simp add: chokidar_all_def trace_of_def onAll_add_change)
  next
    case False': False
    with False show ?thesis
      by (simp add: chokidar_all_def trace_of_def onAll_other)
  qed
qed

lemma watchLoop_keeps_files:
  "finished (watchLoop cfg evs w) \<and>
   filter isFileSystemWrite (trace_of (watchLoop cfg evs w)) = filter isFileSystemWrite (trace w)"
proof (induction evs arbitrary: w)
  case Nil
  then show ?case by (simp add: trace_of_def)
next
  case (Cons e evs)
  from chokidar_all_keeps_files [of cfg e w] obtain w' where
    step: "chokidar_all cfg e w = Done w'"
    and keep: "filter isFileSystemWrite (trace w') = filter isFileSystemWrite (trace w)"
    by (cases "chokidar_all cfg e w") (auto simp: trace_of_def)
  from step have "watchLoop cfg (e # evs) w = watchLoop cfg evs w'" by simp
  with Cons.IH [of w'] keep show ?case by simp
qed

lemma development_quiet:
  assumes dev: "isDevelopment cfg" and quiet: "\<forall>ev. throws w ev = None"
  shows "development cfg modules w =
     Done (w\<lparr>trace := trace w @
       [RimrafSync (DEV_PATH cfg),
        MkdirpSync (resolvePath cfg [DEV_PATH cfg]),
        MkdirpSync (resolvePath cfg [DEV_PATH cfg, CJS_MODULES]),
        WriteFileSync (resolvePath cfg [DEV_PATH cfg, CJS_MODULES, ''path-mapping.js''])
          (Source (pathMappingTemplate (pathMappingEntries cfg CJS_MODULES modules))),
        MkdirpSync (resolvePath cfg [DEV_PATH cfg, ESM_MODULES]),
        WriteFileSync (resolvePath cfg [DEV_PATH cfg, ESM_MODULES, ''path-mapping.js''])
          (Source (pathMappingTemplate (pathMappingEntries cfg ESM_MODULES modules))),
        ChokidarWatch (resolvePath cfg [''src'']) DO_NOT_BUILD_PATHS]\<rparr>)"
proof -
  have q: "throws w ev = None" for ev using quiet by simp
  from dev have dir: "DIR_PATH cfg = DEV_PATH cfg" by (simp add: DIR_PATH_def)
  show ?thesis
    by (simp add: development_def cleanFolder_def createFolder_def
        buildCjsPathMapping_def buildEsmPathMapping_def
        buildPathMapping_def try_catch_def perform_def emit_def q dir)
qed

text \<open>
  C7. In development mode an \<^verbatim>\<open>add\<close> or \<^verbatim>\<open>change\<close> event makes the listener call
  the compiler twice for the path of the event, once per format, without waiting; for
  any other event the listener does nothing; and whatever events arrive, the watch loop
  writes no file and makes no directory, so the manifests written at startup are never
  written again.
\<close>

theorem watch_events:
  "(event = ''add'' \<or> event = ''change'' \<longrightarrow>
      onAll cfg event p w =
        Done (w\<lparr>trace := trace w @
          [ConsoleLog ([CHR 0xE2, CHR 0x9C, CHR 0x93] @ '' '' @ removeSourcePath cfg p),
           BuildModule CJS_MODULES p,
           BuildModule ESM_MODULES p]\<rparr>)) \<and>
   (event \<noteq> ''add'' \<and> event \<noteq> ''change'' \<longrightarrow> onAll cfg event p w = Done w) \<and>
   finished (watchLoop cfg evs w) \<and>
   filter isFileSystemWrite (trace_of (watchLoop cfg evs w)) = filter isFileSystemWrite (trace w) \<and>
   (isDevelopment cfg \<and> (\<forall>ev. throws w ev = None) \<longrightarrow>
      filter isFileSystemWrite (trace_of (make cfg tree w)) =
        filter isFileSystemWrite (trace w) @
        [RimrafSync (DEV_PATH cfg),
         MkdirpSync (resolvePath cfg [DEV_PATH cfg]),
         MkdirpSync (resolvePath cfg [DEV_PATH cfg, CJS_MODULES]),
         WriteFileSync (resolvePath cfg [DEV_PATH cfg, CJS_MODULES, ''path-mapping.js''])
           (Source (pathMappingTemplate (pathMappingEntries cfg CJS_MODULES (takeModules tree)))),
         MkdirpSync (resolvePath cfg [DEV_PATH cfg, ESM_MODULES]),
         WriteFileSync (resolvePath cfg [DEV_PATH cfg, ESM_MODULES, ''path-mapping.js''])
           (Source (pathMappingTemplate (pathMappingEntries cfg ESM_MODULES (takeModules tree))))])"
proof (intro conjI impI)
  assume "event = ''add'' \<or> event = ''change''"
  then show "onAll cfg event p w =
        Done (w\<lparr>trace := trace w @
          [ConsoleLog ([CHR 0xE2, CHR 0x9C, CHR 0x93] @ '' '' @ removeSourcePath cfg p),
           BuildModule CJS_MODULES p,
           BuildModule ESM_MODULES p]\<rparr>)"
    by (rule onAll_add_change)
next
  assume "event \<noteq> ''add'' \<and> event \<noteq> ''change''"
  then show "onAll cfg event p w = Done w"
    by (simp add: onAll_other)
next
  show "finished (watchLoop cfg evs w)"
    using watchLoop_keeps_files by blast
next
  show "filter isFileSystemWrite (trace_of (watchLoop cfg evs w)) = filter isFileSystemWrite (trace w)"
    using watchLoop_keeps_files by blast
next
  assume a: "isDevelopment cfg \<and> (\<forall>ev. throws w ev = None)"
  let ?w1 = "emit (Klaw (SOURCE_PATH cfg)) w"
  from a have "throws w (Klaw (SOURCE_PATH cfg)) = None" by simp
  with a have step: "make cfg tree w = development cfg (takeModules tree) ?w1"
    by (simp add: make_def perform_def run_last)
  from a have "\<forall>ev. throws ?w1 ev = None" by simp
  with a have "development cfg (takeModules tree) ?w1 = Done (?w1\<lparr>trace := trace ?w1 @
       [RimrafSync (DEV_PATH cfg),
        MkdirpSync (resolvePath cfg [DEV_PATH cfg]),
        MkdirpSync (resolvePath cfg [DEV_PATH cfg, CJS_MODULES]),
        WriteFileSync (resolvePath cfg [DEV_PATH cfg, CJS_MODULES, ''path-mapping.js''])
          (Source (pathMappingTemplate (pathMappingEntries cfg CJS_MODULES (takeModules tree)))),
        MkdirpSync (resolvePath cfg [DEV_PATH cfg, ESM_MODULES]),
        WriteFileSync (resolvePath cfg [DEV_PATH cfg, ESM_MODULES, ''path-mapping.js''])
          (Source (pathMappingTemplate (pathMappingEntries cfg ESM_MODULES (takeModules tree)))),
        ChokidarWatch (resolvePath cfg [''src'']) DO_NOT_BUILD_PATHS]\<rparr>)"
    using development_quiet by blast
  with step show "filter isFileSystemWrite (trace_of (make cfg tree w)) =
        filter isFileSystemWrite (trace w) @
        [RimrafSync (DEV_PATH cfg),
         MkdirpSync (resolvePath cfg [DEV_PATH cfg]),
         MkdirpSync (resolvePath cfg [DEV_PATH cfg, CJS_MODULES]),
         WriteFileSync (resolvePath cfg [DEV_PATH cfg, CJS_MODULES, ''path-mapping.js''])
           (Source (pathMappingTemplate (pathMappingEntries cfg CJS_MODULES (takeModules tree)))),
         MkdirpSync (resolvePath cfg [DEV_PATH cfg, ESM_MODULES]),
         WriteFileSync (resolvePath cfg [DEV_PATH cfg, ESM_MODULES, ''path-mapping.js''])
           (Source (pathMappingTemplate (pathMappingEntries cfg ESM_MODULES (takeModules tree))))]"
    by (simp add: trace_of_def)
qed

lemma example_dev_paths:
  "isDevelopment example_dev_config"
  "SOURCE_PATH example_dev_config = ''/proj/src''"
  "DEV_PATH example_dev_config = ''/proj/dev''"
  "resolvePath example_dev_config [''/proj/dev''] = ''/proj/dev''"
  "resolvePath example_dev_config [''/proj/dev'', ''cjs''] = ''/proj/dev/cjs''"
  "resolvePath example_dev_config [''/proj/dev'', ''esm''] = ''/proj/dev/esm''"
  "resolvePath example_dev_config [''/proj/dev'', ''cjs'', ''path-mapping.js''] =
     ''/proj/dev/cjs/path-mapping.js''"
  "resolvePath example_dev_config [''/proj/dev'', ''esm'', ''path-mapping.js''] =
     ''/proj/dev/esm/path-mapping.js''"
  by (simp_all add: SOURCE_PATH_def DEV_PATH_def resolvePath_def resolveSegment_def
      example_dev_config_def example_simps)

theorem watch_events_witness:
  "trace_of (onAll example_dev_config ''change'' ''/proj/src/Foo/bar.js'' quiet_world) =
     [ConsoleLog ([CHR 0xE2, CHR 0x9C, CHR 0x93] @ '' /Foo/bar.js''),
      BuildModule ''cjs'' ''/proj/src/Foo/bar.js'',
      BuildModule ''esm'' ''/proj/src/Foo/bar.js''] \<and>
   onAll example_dev_config ''unlink'' ''/proj/src/Foo/bar.js'' quiet_world = Done quiet_world \<and>
   finished (watchLoop example_dev_config
     [(''change'', ''/proj/src/Foo/bar.js''), (''unlink'', ''/proj/src/Foo/bar.js'')] quiet_world) \<and>
   filter isFileSystemWrite (trace_of (watchLoop example_dev_config
     [(''change'', ''/proj/src/Foo/bar.js''), (''unlink'', ''/proj/src/Foo/bar.js'')] quiet_world)) = [] \<and>
   isDevelopment example_dev_config \<and> (\<forall>ev. throws quiet_world ev = None) \<and>
   filter isFileSystemWrite (trace_of (make example_dev_config example_tree quiet_world)) =
     [RimrafSync ''/proj/dev'',
      MkdirpSync ''/proj/dev'',
      MkdirpSync ''/proj/dev/cjs'',
      WriteFileSync ''/proj/dev/cjs/path-mapping.js''
        (Source (pathMappingTemplate (pathMappingEntries example_dev_config ''cjs''
           [''/proj/src/index.js'', ''/proj/src/Foo/index.js'', ''/proj/src/Foo/bar.js'']))),
      MkdirpSync ''/proj/dev/esm'',
      WriteFileSync ''/proj/dev/esm/path-mapping.js''
        (Source (pathMappingTemplate (pathMappingEntries example_dev_config ''esm''
           [''/proj/src/index.js'', ''/proj/src/Foo/index.js'', ''/proj/src/Foo/bar.js''])))]"
proof -
  let ?evs = "[(''change'', ''/proj/src/Foo/bar.js''), (''unlink'', ''/proj/src/Foo/bar.js'')]"
  have rel: "removeSourcePath example_dev_config ''/proj/src/Foo/bar.js'' = ''/Foo/bar.js''"
    by (simp add: removeSourcePath_def example_dev_paths)
  have empty: "trace quiet_world = []" by (simp add: quiet_world_def)
  note w1 = watch_events [of "''change''" example_dev_config "''/proj/src/Foo/bar.js''"
      quiet_world ?evs example_tree]
  note w2 = watch_events [of "''unlink''" example_dev_config "''/proj/src/Foo/bar.js''"
      quiet_world ?evs example_tree]
  from w1 have "trace_of (onAll example_dev_config ''change'' ''/proj/src/Foo/bar.js'' quiet_world) =
     [ConsoleLog ([CHR 0xE2, CHR 0x9C, CHR 0x93] @ '' /Foo/bar.js''),
      BuildModule ''cjs'' ''/proj/src/Foo/bar.js'',
      BuildModule ''esm'' ''/proj/src/Foo/bar.js'']"
    by (simp add: trace_of_def rel empty CJS_MODULES_def ESM_MODULES_def)
  moreover from w2 have
    "onAll example_dev_config ''unlink'' ''/proj/src/Foo/bar.js'' quiet_world = Done quiet_world"
    by simp
  moreover from w1 have "finished (watchLoop example_dev_config ?evs quiet_world)"
    and "filter isFileSystemWrite (trace_of (watchLoop example_dev_config ?evs quiet_world)) = []"
    by (simp_all add: empty)
  moreover from w1 example_dev_paths(1) quiet_world_quiet
  have "filter isFileSystemWrite (trace_of (make example_dev_config example_tree quiet_world)) =
     [RimrafSync ''/proj/dev'',
      MkdirpSync ''/proj/dev'',
      MkdirpSync ''/proj/dev/cjs'',
      WriteFileSync ''/proj/dev/cjs/path-mapping.js''
        (Source (pathMappingTemplate (pathMappingEntries example_dev_config ''cjs''
           [''/proj/src/index.js'', ''/proj/src/Foo/index.js'', ''/proj/src/Foo/bar.js'']))),
      MkdirpSync ''/proj/dev/esm'',
      WriteFileSync ''/proj/dev/esm/path-mapping.js''
        (Source (pathMappingTemplate (pathMappingEntries example_dev_config ''esm''
           [''/proj/src/index.js'', ''/proj/src/Foo/index.js'', ''/proj/src/Foo/bar.js''])))]"
    by (simp add: empty example_modules example_dev_paths CJS_MODULES_def ESM_MODULES_def)
  ultimately show ?thesis
    using example_dev_paths(1) quiet_world_quiet by simp
qed

text \<open>
  C10. The watcher leaves out the paths that match an exclusion pattern and nothing
  else: an \<^verbatim>\<open>add\<close> or \<^verbatim>\<open>change\<close> event for a path that matches no pattern and does
  not end in \<^verbatim>\<open>.js\<close>, a path that discovery does not take, is compiled in both formats.
\<close>

theorem watcher_ignores_extension:
  assumes "\<not> anymatch DO_NOT_BUILD_PATHS p" and "event = ''add'' \<or> event = ''change''"
    and "\<not> endsWith ''.js'' p"
  shows "\<not> takeFiles \<lparr>path = p\<rparr> \<and>
     chokidar_all cfg (event, p) w =
       Done (w\<lparr>trace := trace w @
         [ConsoleLog ([CHR 0xE2, CHR 0x9C, CHR 0x93] @ '' '' @ removeSourcePath cfg p),
          BuildModule CJS_MODULES p,
          BuildModule ESM_MODULES p]\<rparr>)"
proof
  from assms(3) show "\<not> takeFiles \<lparr>path = p\<rparr>"
    by (simp add: takeFiles_def)
  from assms(1) have "chokidar_all cfg (event, p) w = onAll cfg event p w"
    by (simp add: chokidar_all_def)
  with assms(2) show "chokidar_all cfg (event, p) w =
       Done (w\<lparr>trace := trace w @
         [ConsoleLog ([CHR 0xE2, CHR 0x9C, CHR 0x93] @ '' '' @ removeSourcePath cfg p),
          BuildModule CJS_MODULES p,
          BuildModule ESM_MODULES p]\<rparr>)"
    by (simp only: onAll_add_change)
qed

theorem watcher_ignores_extension_witness:
  "\<not> anymatch DO_NOT_BUILD_PATHS ''/proj/src/README.md'' \<and>
   \<not> endsWith ''.js'' ''/proj/src/README.md'' \<and>
   \<not> takeFiles \<lparr>path = ''/proj/src/README.md''\<rparr> \<and>
   trace_of (chokidar_all example_dev_config (''add'', ''/proj/src/README.md'') quiet_world) =
     [ConsoleLog ([CHR 0xE2, CHR 0x9C, CHR 0x93] @ '' /README.md''),
      BuildModule ''cjs'' ''/proj/src/README.md'',
      BuildModule ''esm'' ''/proj/src/README.md'']"
proof -
  have a: "\<not> anymatch DO_NOT_BUILD_PATHS ''/proj/src/README.md''"
    by (simp add: anymatch_def DO_NOT_BUILD_PATHS_def)
  have b: "''add'' = ''add'' \<or> ''add'' = ''change''" by simp
  have c: "\<not> endsWith ''.js'' ''/proj/src/README.md''"
    by (simp add: endsWith_def)
  have rel: "removeSourcePath example_dev_config ''/proj/src/README.md'' = ''/README.md''"
    by (simp add: removeSourcePath_def example_dev_paths)
  from watcher_ignores_extension [OF a b c, of example_dev_config quiet_world]
  have "\<not> takeFiles \<lparr>path = ''/proj/src/README.md''\<rparr>"
    and "trace_of (chokidar_all example_dev_config (''add'', ''/proj/src/README.md'') quiet_world) =
     [ConsoleLog ([CHR 0xE2, CHR 0x9C, CHR 0x93] @ '' /README.md''),
      BuildModule ''cjs'' ''/proj/src/README.md'',
      BuildModule ''esm'' ''/proj/src/README.md'']"
    by (simp_all add: trace_of_def rel CJS_MODULES_def ESM_MODULES_def quiet_world_def)
  with a c show ?thesis by simp
qed

text \<open>
  C8. When making the directory of a manifest or writing the manifest throws, the
  error is caught inside \<^verbatim>\<open>buildPathMapping\<close> and printed with \<^verbatim>\<open>console.error\<close>;
  \<^verbatim>\<open>buildPathMapping\<close> itself never throws, and the steps after it run.
\<close>

theorem buildPathMapping_catches:
  "finished (buildPathMapping cfg format files w) \<and>
   run (buildPathMapping cfg format files # rest) w =
     run rest (world_of (buildPathMapping cfg format files w)) \<and>
   (throws w (MkdirpSync (resolvePath cfg [DIR_PATH cfg, format])) = Some err \<longrightarrow>
      buildPathMapping cfg format files w = Done (emit (ConsoleError err) w)) \<and>
   (throws w (MkdirpSync (resolvePath cfg [DIR_PATH cfg, format])) = None \<and>
    throws w (WriteFileSync (resolvePath cfg [DIR_PATH cfg, format, ''path-mapping.js''])
                (Source (pathMappingTemplate (pathMappingEntries cfg format files)))) = Some err \<longrightarrow>
      buildPathMapping cfg format files w =
        Done (emit (ConsoleError err)
                (emit (MkdirpSync (resolvePath cfg [DIR_PATH cfg, format])) w)))"
proof (intro conjI impI)
  show fin: "finished (buildPathMapping cfg format files w)"
    by (rule buildPathMapping_finished)
  then show "run (buildPathMapping cfg format files # rest) w =
     run rest (world_of (buildPathMapping cfg format files w))"
    by (rule run_after_finished)
next
  assume "throws w (MkdirpSync (resolvePath cfg [DIR_PATH cfg, format])) = Some err"
  then show "buildPathMapping cfg format files w = Done (emit (ConsoleError err) w)"
    by (rule buildPathMapping_mkdir_throws)
next
  assume "throws w (MkdirpSync (resolvePath cfg [DIR_PATH cfg, format])) = None \<and>
    throws w (WriteFileSync (resolvePath cfg [DIR_PATH cfg, format, ''path-mapping.js''])
                (Source (pathMappingTemplate (pathMappingEntries cfg format files)))) = Some err"
  then show "buildPathMapping cfg format files w =
        Done (emit (ConsoleError err)
                (emit (MkdirpSync (resolvePath cfg [DIR_PATH cfg, format])) w))"
    by (simp add: buildPathMapping_write_throws)
qed

lemma example_DIR_PATH: "DIR_PATH example_config = ''/proj/dist''"
  by (simp add: DIR_PATH_def example_mode example_paths)

theorem buildPathMapping_catches_witness:
  "throws readonly_cjs_world (MkdirpSync ''/proj/dist/cjs'') = None \<and>
   throws readonly_cjs_world
     (WriteFileSync ''/proj/dist/cjs/path-mapping.js''
        (Source (pathMappingTemplate (pathMappingEntries example_config ''cjs''
           [''/proj/src/index.js''])))) = Some (Error ''EACCES'') \<and>
   trace_of (run [buildPathMapping example_config ''cjs'' [''/proj/src/index.js''],
                  buildPathMapping example_config ''esm'' [''/proj/src/index.js''],
                  prod_buildModules ''esm'' [''/proj/src/index.js'']] readonly_cjs_world) =
     [MkdirpSync ''/proj/dist/cjs'',
      ConsoleError (Error ''EACCES''),
      MkdirpSync ''/proj/dist/esm'',
      WriteFileSync ''/proj/dist/esm/path-mapping.js''
        (Source (pathMappingTemplate (pathMappingEntries example_config ''esm''
           [''/proj/src/index.js'']))),
      MapAsyncBuildModule ''esm'' [''/proj/src/index.js'']]"
proof -
  let ?files = "[''/proj/src/index.js'']"
  let ?rest = "[buildPathMapping example_config ''esm'' ?files, prod_buildModules ''esm'' ?files]"
  have mk: "throws readonly_cjs_world (MkdirpSync ''/proj/dist/cjs'') = None"
    by (simp add: readonly_cjs_world_def)
  have wr: "throws readonly_cjs_world
     (WriteFileSync ''/proj/dist/cjs/path-mapping.js''
        (Source (pathMappingTemplate (pathMappingEntries example_config ''cjs'' ?files)))) =
     Some (Error ''EACCES'')"
    by (simp add: readonly_cjs_world_def)
  let ?w1 = "emit (ConsoleError (Error ''EACCES'')) (emit (MkdirpSync ''/proj/dist/cjs'') readonly_cjs_world)"
  from buildPathMapping_catches [of example_config "''cjs''" ?files readonly_cjs_world ?rest
      "Error ''EACCES''"] mk wr
  have caught: "buildPathMapping example_config ''cjs'' ?files readonly_cjs_world = Done ?w1"
    and cont: "run (buildPathMapping example_config ''cjs'' ?files # ?rest) readonly_cjs_world =
      run ?rest (world_of (buildPathMapping example_config ''cjs'' ?files readonly_cjs_world))"
    by (simp_all add: example_DIR_PATH example_paths)
  have "throws ?w1 (MkdirpSync ''/proj/dist/esm'') = None"
    and "throws ?w1 (WriteFileSync ''/proj/dist/esm/path-mapping.js''
        (Source (pathMappingTemplate (pathMappingEntries example_config ''esm'' ?files)))) = None"
    by (simp_all add: readonly_cjs_world_def)
  then have "buildPathMapping example_config ''esm'' ?files ?w1 =
     Done (emit (WriteFileSync ''/proj/dist/esm/path-mapping.js''
                   (Source (pathMappingTemplate (pathMappingEntries example_config ''esm'' ?files))))
             (emit (MkdirpSync ''/proj/dist/esm'') ?w1))"
    using buildPathMapping_quiet [of ?w1 example_config "''esm''" ?files]
    by (simp add: example_DIR_PATH example_paths)
  with caught cont have "trace_of (run (buildPathMapping example_config ''cjs'' ?files # ?rest)
      readonly_cjs_world) =
     [MkdirpSync ''/proj/dist/cjs'',
      ConsoleError (Error ''EACCES''),
      MkdirpSync ''/proj/dist/esm'',
      WriteFileSync ''/proj/dist/esm/path-mapping.js''
        (Source (pathMappingTemplate (pathMappingEntries example_config ''esm'' ?files))),
      MapAsyncBuildModule ''esm'' ?files]"
    by (simp add: trace_of_def prod_buildModules_def) (simp add: readonly_cjs_world_def)
  with mk wr show ?thesis by simp
qed

end
